theory Spec2Isabelle
  imports Complex_Main "HOL-Library.Word" "HOL-Library.Monad_Syntax"
begin

section \<open>The C++ platform: \<open>double\<close> and the standard library\<close>

text \<open>
  The interpreter computes with the C++ type \<open>double\<close> and calls \<open>std::stod\<close>,
  \<open>std::to_string\<close> and \<open>std::abs\<close>. None of these is code of the repository, so the
  embedding takes them as a parameter: a record of the operations, over a type \<open>'d\<close> of
  double values. Every function of \<open>value.h\<close> below takes the platform as its first
  argument, and the general theorems hold for every platform.

  \<^item> \<open>stod s\<close> is \<open>std::stod(s)\<close>; \<open>None\<close> when it throws (\<open>invalid_argument\<close> or
    \<open>out_of_range\<close>).
  \<^item> \<open>to_string d\<close> is \<open>std::to_string(double)\<close>.
  \<^item> \<open>lit q\<close> is the double a literal of the decimal value \<open>q\<close> denotes (\<open>0.0\<close>, \<open>1.0\<close>,
    \<open>1e-10\<close>), and the result of \<open>static_cast<double>\<close> on an integer of that value.
  \<^item> \<open>dadd\<close>, \<open>dsub\<close>, \<open>dmul\<close>, \<open>ddiv\<close> are \<open>+\<close>, \<open>-\<close>, \<open>*\<close>, \<open>/\<close> on doubles, \<open>dless\<close> is
    \<open><\<close> (and \<open>a > b\<close> is \<open>dless b a\<close>), \<open>dabs\<close> is \<open>std::abs\<close>.
\<close>

record 'd platform =
  stod :: "string \<Rightarrow> 'd option"
  to_string :: "'d \<Rightarrow> string"
  lit :: "rat \<Rightarrow> 'd"
  dadd :: "'d \<Rightarrow> 'd \<Rightarrow> 'd"
  dsub :: "'d \<Rightarrow> 'd \<Rightarrow> 'd"
  dmul :: "'d \<Rightarrow> 'd \<Rightarrow> 'd"
  ddiv :: "'d \<Rightarrow> 'd \<Rightarrow> 'd"
  dless :: "'d \<Rightarrow> 'd \<Rightarrow> bool"
  dabs :: "'d \<Rightarrow> 'd"

subsection \<open>Characters and integers\<close>

text \<open>
  The character classes of \<open><cctype>\<close> in the C locale, which the program never
  changes, on \<open>unsigned char\<close>.
\<close>

definition isspace :: "char \<Rightarrow> bool" where
  "isspace c = (c \<in> set [CHR '' '', CHR 0x09, CHR 0x0A, CHR 0x0B, CHR 0x0C, CHR 0x0D])"

definition isdigit :: "char \<Rightarrow> bool" where
  "isdigit c = (c \<in> set ''0123456789'')"

definition isxdigit :: "char \<Rightarrow> bool" where
  "isxdigit c = (c \<in> set ''0123456789abcdefABCDEF'')"

definition isalpha :: "char \<Rightarrow> bool" where
  "isalpha c = (c \<in> set ''abcdefghijklmnopqrstuvwxyzABCDEFGHIJKLMNOPQRSTUVWXYZ'')"

definition isalnum :: "char \<Rightarrow> bool" where
  "isalnum c = (isalpha c \<or> isdigit c)"

definition tolower :: "char \<Rightarrow> char" where
  "tolower c =
     (case map_of (zip ''ABCDEFGHIJKLMNOPQRSTUVWXYZ'' ''abcdefghijklmnopqrstuvwxyz'') c of
        Some l \<Rightarrow> l
      | None \<Rightarrow> c)"

text \<open>
  \<open>std::to_string(int)\<close> and \<open>operator<<(int)\<close> print the decimal digits, with a leading
  minus sign for a negative number.
\<close>

definition digit_char :: "nat \<Rightarrow> char" where
  "digit_char n = ''0123456789'' ! n"

fun nat_digits :: "nat \<Rightarrow> string" where
  "nat_digits n = (if n < 10 then [digit_char n] else nat_digits (n div 10) @ [digit_char (n mod 10)])"

declare nat_digits.simps [simp del]

definition to_string_int :: "int \<Rightarrow> string" where
  "to_string_int i = (if i < 0 then CHR ''-'' # nat_digits (nat (- i)) else nat_digits (nat i))"

subsection \<open>A reference platform: IEEE 754 binary64\<close>

text \<open>
  One platform is spelled out, for the concrete examples: IEEE 754 binary64 arithmetic
  with rounding to nearest, ties to even, as the SSE2 instructions of an x86-64 processor
  perform it, and the library functions as glibc and libstdc++ define them there in the
  C locale.

  A finite double \<open>Finite s m e\<close> has the value \<open>(-1)\<^sup>s * m * 2\<^sup>e\<close>; every operation
  returns it in the format's normal form, \<open>m < 2\<^sup>5\<^sup>3\<close> and \<open>-1074 \<le> e \<le> 971\<close>, with
  \<open>2\<^sup>5\<^sup>2 \<le> m\<close> unless \<open>e = -1074\<close> (zero and the subnormal numbers). A NaN has its sign
  bit, which \<open>std::to_string\<close> prints; its payload, which nothing in the program reads, is
  not represented. An operation with a NaN operand returns that operand, the first one
  when both are NaNs. An operation that has no NaN operand and no defined result
  (\<open>inf - inf\<close>, \<open>0 * inf\<close>, \<open>0 / 0\<close>, \<open>inf / inf\<close>) returns the default NaN of the processor,
  whose sign bit is set.
\<close>

datatype double = Finite bool nat int | Infinity bool | NaN bool

text \<open>\<open>bitlen n\<close> is the number of binary digits of \<open>n\<close>.\<close>

fun bitlen :: "nat \<Rightarrow> nat" where
  "bitlen n = (if n = 0 then 0 else Suc (bitlen (n div 2)))"

declare bitlen.simps [simp del]

text \<open>\<open>pow2_le k n d\<close> is \<open>2\<^sup>k \<le> n / d\<close>, and \<open>floor_log2 n d\<close> is \<open>\<lfloor>log\<^sub>2 (n / d)\<rfloor>\<close>, for
  positive \<open>n\<close> and \<open>d\<close>.\<close>

definition pow2_le :: "int \<Rightarrow> nat \<Rightarrow> nat \<Rightarrow> bool" where
  "pow2_le k n d = (if 0 \<le> k then d * 2 ^ nat k \<le> n else d \<le> n * 2 ^ nat (- k))"

definition floor_log2 :: "nat \<Rightarrow> nat \<Rightarrow> int" where
  "floor_log2 n d =
     (let k = int (bitlen n) - int (bitlen d) in if pow2_le k n d then k else k - 1)"

text \<open>The integer nearest to \<open>n / d\<close>, the even one of two that are equally near.\<close>

definition round_half_even :: "nat \<Rightarrow> nat \<Rightarrow> nat" where
  "round_half_even n d =
     (let q = n div d; r = n mod d in
      if 2 * r < d then q else if d < 2 * r then q + 1 else if even q then q else q + 1)"

definition scaled_round :: "nat \<Rightarrow> nat \<Rightarrow> int \<Rightarrow> nat" where
  "scaled_round n d e =
     (if 0 \<le> e then round_half_even n (d * 2 ^ nat e) else round_half_even (n * 2 ^ nat (- e)) d)"

definition pack :: "bool \<Rightarrow> nat \<Rightarrow> int \<Rightarrow> double" where
  "pack s m e =
     (if m = 2 ^ 53
      then (if 971 < e + 1 then Infinity s else Finite s (2 ^ 52) (e + 1))
      else if 971 < e then Infinity s else Finite s m e)"

text \<open>\<open>round_double s n d\<close> is the double nearest to \<open>(-1)\<^sup>s * n / d\<close>.\<close>

definition round_double :: "bool \<Rightarrow> nat \<Rightarrow> nat \<Rightarrow> double" where
  "round_double s n d =
     (if n = 0 then Finite s 0 (- 1074)
      else let e = max (floor_log2 n d - 52) (- 1074) in pack s (scaled_round n d e) e)"

definition round_scaled :: "bool \<Rightarrow> nat \<Rightarrow> int \<Rightarrow> double" where
  "round_scaled s a k =
     (if 0 \<le> k then round_double s (a * 2 ^ nat k) 1 else round_double s a (2 ^ nat (- k)))"

definition double_of_rat :: "rat \<Rightarrow> double" where
  "double_of_rat q = (case quotient_of q of (n, d) \<Rightarrow> round_double (n < 0) (nat \<bar>n\<bar>) (nat d))"

definition signed_mant :: "bool \<Rightarrow> nat \<Rightarrow> int" where
  "signed_mant s m = (if s then - int m else int m)"

text \<open>The sum of two finite doubles, in units of \<open>2\<close> to the smaller exponent.\<close>

definition aligned_sum :: "bool \<Rightarrow> nat \<Rightarrow> int \<Rightarrow> bool \<Rightarrow> nat \<Rightarrow> int \<Rightarrow> int" where
  "aligned_sum s m e t n f =
     signed_mant s m * 2 ^ nat (e - min e f) + signed_mant t n * 2 ^ nat (f - min e f)"

fun double_neg :: "double \<Rightarrow> double" where
  "double_neg (Finite s m e) = Finite (\<not> s) m e"
| "double_neg (Infinity s) = Infinity (\<not> s)"
| "double_neg (NaN s) = NaN (\<not> s)"

fun double_abs :: "double \<Rightarrow> double" where
  "double_abs (Finite s m e) = Finite False m e"
| "double_abs (Infinity s) = Infinity False"
| "double_abs (NaN s) = NaN False"

fun double_add :: "double \<Rightarrow> double \<Rightarrow> double" where
  "double_add (NaN s) y = NaN s"
| "double_add x (NaN t) = NaN t"
| "double_add (Infinity s) (Infinity t) = (if s = t then Infinity s else NaN True)"
| "double_add (Infinity s) (Finite t n f) = Infinity s"
| "double_add (Finite s m e) (Infinity t) = Infinity t"
| "double_add (Finite s m e) (Finite t n f) =
     (let v = aligned_sum s m e t n f in
      if v = 0 then Finite (s \<and> t) 0 (- 1074) else round_scaled (v < 0) (nat \<bar>v\<bar>) (min e f))"

fun double_sub :: "double \<Rightarrow> double \<Rightarrow> double" where
  "double_sub (NaN s) y = NaN s"
| "double_sub x (NaN t) = NaN t"
| "double_sub x y = double_add x (double_neg y)"

fun double_mul :: "double \<Rightarrow> double \<Rightarrow> double" where
  "double_mul (NaN s) y = NaN s"
| "double_mul x (NaN t) = NaN t"
| "double_mul (Infinity s) (Infinity t) = Infinity (s \<noteq> t)"
| "double_mul (Infinity s) (Finite t n f) = (if n = 0 then NaN True else Infinity (s \<noteq> t))"
| "double_mul (Finite s m e) (Infinity t) = (if m = 0 then NaN True else Infinity (s \<noteq> t))"
| "double_mul (Finite s m e) (Finite t n f) = round_scaled (s \<noteq> t) (m * n) (e + f)"

fun double_div :: "double \<Rightarrow> double \<Rightarrow> double" where
  "double_div (NaN s) y = NaN s"
| "double_div x (NaN t) = NaN t"
| "double_div (Infinity s) (Infinity t) = NaN True"
| "double_div (Infinity s) (Finite t n f) = Infinity (s \<noteq> t)"
| "double_div (Finite s m e) (Infinity t) = Finite (s \<noteq> t) 0 (- 1074)"
| "double_div (Finite s m e) (Finite t n f) =
     (if n = 0 then (if m = 0 then NaN True else Infinity (s \<noteq> t))
      else if f \<le> e then round_double (s \<noteq> t) (m * 2 ^ nat (e - f)) n
      else round_double (s \<noteq> t) m (n * 2 ^ nat (f - e)))"

fun double_less :: "double \<Rightarrow> double \<Rightarrow> bool" where
  "double_less (NaN s) y = False"
| "double_less x (NaN t) = False"
| "double_less (Infinity s) (Infinity t) = (s \<and> \<not> t)"
| "double_less (Infinity s) (Finite t n f) = s"
| "double_less (Finite s m e) (Infinity t) = (\<not> t)"
| "double_less (Finite s m e) (Finite t n f) =
     (signed_mant s m * 2 ^ nat (e - min e f) < signed_mant t n * 2 ^ nat (f - min e f))"

text \<open>The magnitude \<open>m * 2\<^sup>e\<close> of a finite double, as a rational number.\<close>

definition double_magnitude :: "nat \<Rightarrow> int \<Rightarrow> rat" where
  "double_magnitude m e = of_nat m * 2 powi e"

text \<open>
  \<open>std::to_string(double)\<close> prints as \<open>printf("%f")\<close> does: the value rounded to six
  decimal places, after the sign.
\<close>

definition pad6 :: "nat \<Rightarrow> string" where
  "pad6 n = drop (length (nat_digits n)) ''000000'' @ nat_digits n"

definition micro_units :: "nat \<Rightarrow> int \<Rightarrow> nat" where
  "micro_units m e =
     (if 0 \<le> e then m * 2 ^ nat e * 10 ^ 6 else round_half_even (m * 10 ^ 6) (2 ^ nat (- e)))"

fun double_to_string :: "double \<Rightarrow> string" where
  "double_to_string (Finite s m e) =
     (if s then ''-'' else []) @ nat_digits (micro_units m e div 10 ^ 6) @ ''.'' @
       pad6 (micro_units m e mod 10 ^ 6)"
| "double_to_string (Infinity s) = (if s then ''-inf'' else ''inf'')"
| "double_to_string (NaN s) = (if s then ''-nan'' else ''nan'')"

text \<open>
  \<open>std::stod\<close> converts the longest prefix that \<open>strtod\<close> accepts, after white space and
  an optional sign: \<open>inf\<close> or \<open>nan\<close> in any case, a hexadecimal or a decimal number with
  an optional exponent. It throws when there is no such prefix, and when \<open>strtod\<close>
  reports \<open>ERANGE\<close>.
\<close>

definition xdigit_val :: "char \<Rightarrow> nat" where
  "xdigit_val c =
     (case map_of
        [(CHR ''0'', 0), (CHR ''1'', 1), (CHR ''2'', 2), (CHR ''3'', 3), (CHR ''4'', 4),
         (CHR ''5'', 5), (CHR ''6'', 6), (CHR ''7'', 7), (CHR ''8'', 8), (CHR ''9'', 9),
         (CHR ''a'', 10), (CHR ''b'', 11), (CHR ''c'', 12), (CHR ''d'', 13), (CHR ''e'', 14),
         (CHR ''f'', 15)] (tolower c) of
        Some v \<Rightarrow> v
      | None \<Rightarrow> 0)"

fun digits_val :: "nat \<Rightarrow> nat \<Rightarrow> string \<Rightarrow> nat" where
  "digits_val b acc [] = acc"
| "digits_val b acc (c # cs) = digits_val b (b * acc + xdigit_val c) cs"

text \<open>An optional sign: whether it is a minus, and the rest.\<close>

fun scan_sign :: "string \<Rightarrow> bool \<times> string" where
  "scan_sign (c # cs) =
     (if c = CHR ''-'' then (True, cs) else if c = CHR ''+'' then (False, cs) else (False, c # cs))"
| "scan_sign [] = (False, [])"

text \<open>
  The exponent after the mantissa: its marker, an optional sign and at least one digit;
  anything else is no exponent.
\<close>

fun scan_exponent :: "string \<Rightarrow> string \<Rightarrow> int" where
  "scan_exponent markers (c # cs) =
     (if c \<in> set markers then
        (case scan_sign cs of (neg, r) \<Rightarrow>
           (if takeWhile isdigit r = [] then 0
            else if neg then - int (digits_val 10 0 (takeWhile isdigit r))
            else int (digits_val 10 0 (takeWhile isdigit r))))
      else 0)"
| "scan_exponent markers [] = 0"

text \<open>
  The mantissa: digits, optionally a point and digits. The result is the integer its
  digits spell, the number of digits after the point, and the rest; \<open>None\<close> when it has no
  digit.
\<close>

definition scan_mantissa ::
    "(char \<Rightarrow> bool) \<Rightarrow> nat \<Rightarrow> string \<Rightarrow> (nat \<times> nat \<times> string) option" where
  "scan_mantissa isdig b s =
     (let ip = takeWhile isdig s; r = dropWhile isdig s;
          fp = (case r of c # t \<Rightarrow> if c = CHR ''.'' then takeWhile isdig t else [] | [] \<Rightarrow> []);
          r' = (case r of c # t \<Rightarrow> if c = CHR ''.'' then dropWhile isdig t else r | [] \<Rightarrow> [])
      in if ip = [] \<and> fp = [] then None
         else Some (digits_val b 0 (ip @ fp), length fp, r'))"

text \<open>\<open>n * b\<^sup>k\<close> as a fraction.\<close>

definition scaled_frac :: "nat \<Rightarrow> nat \<Rightarrow> int \<Rightarrow> nat \<times> nat" where
  "scaled_frac n b k = (if 0 \<le> k then (n * b ^ nat k, 1) else (n, b ^ nat (- k)))"

fun exactly :: "double \<Rightarrow> nat \<Rightarrow> nat \<Rightarrow> bool" where
  "exactly (Finite s m e) n d =
     (if 0 \<le> e then m * 2 ^ nat e * d = n else m * d = n * 2 ^ nat (- e))"
| "exactly (Infinity s) n d = False"
| "exactly (NaN s) n d = False"

text \<open>
  \<open>strtod\<close> reports \<open>ERANGE\<close>, which \<open>std::stod\<close> throws as \<open>out_of_range\<close>, when the
  value overflows, and when the value is tiny and the result is inexact. glibc detects
  tininess after rounding there: a value is tiny when, rounded to 53 bits with no bound
  on the exponent, it is still below the least normal number \<open>2\<^sup>-\<^sup>1\<^sup>0\<^sup>2\<^sup>2\<close>. \<open>tiny n d\<close> says it of
  \<open>n / d\<close>.
\<close>

definition tiny :: "nat \<Rightarrow> nat \<Rightarrow> bool" where
  "tiny n d =
     (if n = 0 then False
      else if floor_log2 n d < - 1023 then True
      else if floor_log2 n d = - 1023 then scaled_round n d (- 1075) < 2 ^ 53
      else False)"

definition checked_round :: "bool \<Rightarrow> nat \<times> nat \<Rightarrow> double option" where
  "checked_round s f =
     (let x = round_double s (fst f) (snd f) in
      if x = Infinity s then None
      else if tiny (fst f) (snd f) \<and> \<not> exactly x (fst f) (snd f) then None
      else Some x)"

definition decimal_value :: "bool \<Rightarrow> string \<Rightarrow> double option" where
  "decimal_value s t =
     (case scan_mantissa isdigit 10 t of
        None \<Rightarrow> None
      | Some (m, f, r) \<Rightarrow> checked_round s (scaled_frac m 10 (scan_exponent ''eE'' r - int f)))"

definition hex_value :: "bool \<Rightarrow> string \<Rightarrow> double option" where
  "hex_value s t =
     (case scan_mantissa isxdigit 16 t of
        None \<Rightarrow> None
      | Some (m, f, r) \<Rightarrow> checked_round s (scaled_frac m 2 (scan_exponent ''pP'' r - 4 * int f)))"

definition hex_prefix :: "string \<Rightarrow> bool" where
  "hex_prefix t =
     (map tolower (take 2 t) = ''0x'' \<and> scan_mantissa isxdigit 16 (drop 2 t) \<noteq> None)"

definition double_stod :: "string \<Rightarrow> double option" where
  "double_stod str =
     (case scan_sign (dropWhile isspace str) of (neg, t) \<Rightarrow>
        if map tolower (take 3 t) = ''inf'' then Some (Infinity neg)
        else if map tolower (take 3 t) = ''nan'' then Some (NaN neg)
        else if hex_prefix t then hex_value neg (drop 2 t)
        else decimal_value neg t)"

definition binary64 :: "double platform" where
  "binary64 =
     \<lparr>stod = double_stod, to_string = double_to_string, lit = double_of_rat,
      dadd = double_add, dsub = double_sub, dmul = double_mul, ddiv = double_div,
      dless = double_less, dabs = double_abs\<rparr>"

section \<open>\<open>runtime/value.h\<close>: the dynamic value\<close>

datatype ValueType = STRING | FLOAT | BOOL | HANDLE

text \<open>
  \<open>struct Handle\<close>: the resource kind, the pointer to the resource (an address, \<open>0\<close> for
  \<open>nullptr\<close>) and the \<open>int\<close> identifier.
\<close>

record Handle =
  handle_type :: string
  handle_ptr :: nat
  handle_id :: "32 word"

text \<open>
  \<open>class Value\<close> holds a tag and a variant that its four constructors keep in step, so
  a value is one of four alternatives. \<open>Value()\<close> is the empty string.
\<close>

datatype 'd Value =
    Value_string string
  | Value_double 'd
  | Value_bool bool
  | Value_handle Handle

definition Value_default :: "'d Value" where
  "Value_default = Value_string []"

text \<open>
  The four constructors with an argument take a \<open>const std::string&\<close>, a \<open>double\<close>, a
  \<open>bool\<close> and a \<open>Handle\<close>; the class has none for \<open>const char*\<close>. For a string literal,
  as in \<open>Value("abc")\<close>, overload resolution weighs the conversion of the array to a
  pointer and then to \<open>bool\<close>, a standard conversion, against the conversion to
  \<open>std::string\<close>, a user-defined one, and selects \<open>Value(bool)\<close>. The pointer is not null:
  the value is the bool \<open>true\<close>, whatever the text of the literal.
\<close>

definition Value_of_literal :: "string \<Rightarrow> 'd Value" where
  "Value_of_literal s = Value_bool True"

fun getType :: "'d Value \<Rightarrow> ValueType" where
  "getType (Value_string s) = STRING"
| "getType (Value_double f) = FLOAT"
| "getType (Value_bool b) = BOOL"
| "getType (Value_handle h) = HANDLE"

text \<open>Exceptions are values: the code throws \<open>std::runtime_error\<close> with a message.\<close>

datatype exn = runtime_error string

fun toString :: "'d platform \<Rightarrow> 'd Value \<Rightarrow> string" where
  "toString P (Value_string s) = s"
| "toString P (Value_double f) = to_string P f"
| "toString P (Value_bool b) = (if b then ''true'' else ''false'')"
| "toString P (Value_handle h) =
     ''<handle:'' @ handle_type h @ '':'' @ to_string_int (sint (handle_id h)) @ ''>''"

text \<open>\<open>toFloat\<close>: the \<open>catch (...)\<close> around \<open>std::stod\<close> turns every exception into \<open>0.0\<close>.\<close>

fun toFloat :: "'d platform \<Rightarrow> 'd Value \<Rightarrow> 'd" where
  "toFloat P (Value_string s) = (case stod P s of Some d \<Rightarrow> d | None \<Rightarrow> lit P 0)"
| "toFloat P (Value_double f) = f"
| "toFloat P (Value_bool b) = (if b then lit P 1 else lit P 0)"
| "toFloat P (Value_handle h) = lit P (of_int (sint (handle_id h)))"

fun toBool :: "'d platform \<Rightarrow> 'd Value \<Rightarrow> bool" where
  "toBool P (Value_string s) = (s \<noteq> [])"
| "toBool P (Value_double f) = dless P (lit P (1 / 10 ^ 10)) (dabs P f)"
| "toBool P (Value_bool b) = b"
| "toBool P (Value_handle h) = (handle_ptr h \<noteq> 0)"

definition convertTo :: "'d platform \<Rightarrow> 'd Value \<Rightarrow> ValueType \<Rightarrow> exn + 'd Value" where
  "convertTo P v targetType =
     (if getType v = targetType then Inr v
      else (case targetType of
              STRING \<Rightarrow> Inr (Value_string (toString P v))
            | FLOAT \<Rightarrow> Inr (Value_double (toFloat P v))
            | BOOL \<Rightarrow> Inr (Value_bool (toBool P v))
            | HANDLE \<Rightarrow> Inl (runtime_error ''Cannot convert to handle type'')))"

definition Value_plus :: "'d platform \<Rightarrow> 'd Value \<Rightarrow> 'd Value \<Rightarrow> 'd Value" where
  "Value_plus P a b =
     (if getType a = STRING \<or> getType b = STRING
      then Value_string (toString P a @ toString P b)
      else Value_double (dadd P (toFloat P a) (toFloat P b)))"

definition Value_minus :: "'d platform \<Rightarrow> 'd Value \<Rightarrow> 'd Value \<Rightarrow> 'd Value" where
  "Value_minus P a b = Value_double (dsub P (toFloat P a) (toFloat P b))"

definition Value_times :: "'d platform \<Rightarrow> 'd Value \<Rightarrow> 'd Value \<Rightarrow> 'd Value" where
  "Value_times P a b = Value_double (dmul P (toFloat P a) (toFloat P b))"

definition Value_divide :: "'d platform \<Rightarrow> 'd Value \<Rightarrow> 'd Value \<Rightarrow> exn + 'd Value" where
  "Value_divide P a b =
     (let divisor = toFloat P b in
      if dless P (dabs P divisor) (lit P (1 / 10 ^ 10))
      then Inl (runtime_error ''Division by zero'')
      else Inr (Value_double (ddiv P (toFloat P a) divisor)))"

section \<open>\<open>symbol/symbol_table.h\<close>: symbols and the scope chain\<close>

datatype SymbolType = VARIABLE | FUNCTION | OPERATION | BLOCK | BUILTIN

text \<open>
  A \<open>Symbol\<close> object has the three public fields of the base class and the fields of
  its dynamic class, which \<open>std::dynamic_pointer_cast\<close> tests.
\<close>

datatype SymbolClass =
    Symbol_class
  | VariableSymbol_class (isMutable: bool)
  | FunctionSymbol_class "string list"
  | OperationSymbol_class "string list"
  | BlockSymbol_class int
  | BuiltInSymbol_class string

record 'd Symbol =
  sym_name :: string
  sym_type :: SymbolType
  sym_value :: "'d Value"
  sym_class :: SymbolClass

definition VariableSymbol :: "string \<Rightarrow> 'd Value \<Rightarrow> bool \<Rightarrow> 'd Symbol" where
  "VariableSymbol n v mut =
     \<lparr>sym_name = n, sym_type = VARIABLE, sym_value = v, sym_class = VariableSymbol_class mut\<rparr>"

definition FunctionSymbol :: "string \<Rightarrow> string list \<Rightarrow> 'd Symbol" where
  "FunctionSymbol n params =
     \<lparr>sym_name = n, sym_type = FUNCTION, sym_value = Value_default,
      sym_class = FunctionSymbol_class params\<rparr>"

definition OperationSymbol :: "string \<Rightarrow> string list \<Rightarrow> 'd Symbol" where
  "OperationSymbol n params =
     \<lparr>sym_name = n, sym_type = OPERATION, sym_value = Value_default,
      sym_class = OperationSymbol_class params\<rparr>"

definition BlockSymbol :: "string \<Rightarrow> int \<Rightarrow> 'd Symbol" where
  "BlockSymbol n blockId =
     \<lparr>sym_name = n, sym_type = BLOCK, sym_value = Value_default,
      sym_class = BlockSymbol_class blockId\<rparr>"

definition BuiltInSymbol :: "string \<Rightarrow> string \<Rightarrow> 'd Symbol" where
  "BuiltInSymbol n impl =
     \<lparr>sym_name = n, sym_type = BUILTIN, sym_value = Value_default,
      sym_class = BuiltInSymbol_class impl\<rparr>"

text \<open>
  The entries of a scope are \<open>std::shared_ptr<Symbol>\<close>: two entries can point to one
  object, and an assignment to the object through one entry is seen through the other. So
  the \<open>Symbol\<close> objects are kept in a store of their own, the list \<open>objects\<close> of the table,
  in the order of their allocation, and a pointer is the index of its object in the
  list. A \<open>shared_ptr\<close> keeps its object alive, so a pointer that is held anywhere is an
  index of the list.

  A \<open>Scope\<close> is its table of entries and the link to its parent (none at the root). The
  chain from the current scope to the root is a value: it is finite, and each of its
  scopes is reached along it only, as in every chain that \<open>SymbolTable\<close> builds.
\<close>

type_synonym symbol_ptr = nat

datatype Scope = Scope (symbols: "string \<rightharpoonup> symbol_ptr") (parent: "Scope option")

fun Scope_define :: "Scope \<Rightarrow> string \<Rightarrow> symbol_ptr \<Rightarrow> Scope" where
  "Scope_define (Scope syms par) n p = Scope (syms(n \<mapsto> p)) par"

text \<open>\<open>Scope::lookup\<close> returns the pointer of the nearest entry, or \<open>nullptr\<close>, here \<open>None\<close>.\<close>

fun Scope_lookup :: "Scope \<Rightarrow> string \<Rightarrow> symbol_ptr option" where
  "Scope_lookup (Scope syms par) n =
     (case syms n of
        Some p \<Rightarrow> Some p
      | None \<Rightarrow> (case par of Some q \<Rightarrow> Scope_lookup q n | None \<Rightarrow> None))"

fun hasLocal :: "Scope \<Rightarrow> string \<Rightarrow> bool" where
  "hasLocal (Scope syms par) n = (syms n \<noteq> None)"

record 'd SymbolTable =
  objects :: "'d Symbol list"
  currentScope :: Scope

text \<open>\<open>deref t p\<close> is the object \<open>*p\<close>, and \<open>make_shared\<close> allocates a new object.\<close>

definition deref :: "'d SymbolTable \<Rightarrow> symbol_ptr \<Rightarrow> 'd Symbol" where
  "deref t p = objects t ! p"

definition make_shared :: "'d SymbolTable \<Rightarrow> 'd Symbol \<Rightarrow> symbol_ptr \<times> 'd SymbolTable" where
  "make_shared t s = (length (objects t), t\<lparr>objects := objects t @ [s]\<rparr>)"

definition SymbolTable_define :: "'d SymbolTable \<Rightarrow> symbol_ptr \<Rightarrow> 'd SymbolTable" where
  "SymbolTable_define t p =
     t\<lparr>currentScope := Scope_define (currentScope t) (sym_name (deref t p)) p\<rparr>"

text \<open>\<open>define(std::make_shared<...>(...))\<close>, as the constructor and the wrappers call it.\<close>

definition define_new :: "'d SymbolTable \<Rightarrow> 'd Symbol \<Rightarrow> 'd SymbolTable" where
  "define_new t s = (case make_shared t s of (p, t') \<Rightarrow> SymbolTable_define t' p)"

definition initializeBuiltIns :: "'d SymbolTable \<Rightarrow> 'd SymbolTable" where
  "initializeBuiltIns t =
     define_new (define_new (define_new (define_new (define_new t
       (BuiltInSymbol ''Say'' ''print''))
       (BuiltInSymbol ''open'' ''file_open''))
       (BuiltInSymbol ''Read'' ''file_read''))
       (BuiltInSymbol ''Write'' ''file_write''))
       (BuiltInSymbol ''DO'' ''execute'')"

definition SymbolTable_new :: "'d SymbolTable" where
  "SymbolTable_new = initializeBuiltIns \<lparr>objects = [], currentScope = Scope Map.empty None\<rparr>"

definition enterScope :: "'d SymbolTable \<Rightarrow> 'd SymbolTable" where
  "enterScope t = t\<lparr>currentScope := Scope Map.empty (Some (currentScope t))\<rparr>"

definition exitScope :: "'d SymbolTable \<Rightarrow> 'd SymbolTable" where
  "exitScope t = (case parent (currentScope t) of Some q \<Rightarrow> t\<lparr>currentScope := q\<rparr> | None \<Rightarrow> t)"

definition lookup :: "'d SymbolTable \<Rightarrow> string \<Rightarrow> symbol_ptr option" where
  "lookup t n = Scope_lookup (currentScope t) n"

definition defineVariable :: "'d SymbolTable \<Rightarrow> string \<Rightarrow> 'd Value \<Rightarrow> bool \<Rightarrow> 'd SymbolTable" where
  "defineVariable t n v mut = define_new t (VariableSymbol n v mut)"

definition defineFunction :: "'d SymbolTable \<Rightarrow> string \<Rightarrow> string list \<Rightarrow> 'd SymbolTable" where
  "defineFunction t n params = define_new t (FunctionSymbol n params)"

definition defineOperation :: "'d SymbolTable \<Rightarrow> string \<Rightarrow> string list \<Rightarrow> 'd SymbolTable" where
  "defineOperation t n params = define_new t (OperationSymbol n params)"

definition defineBlock :: "'d SymbolTable \<Rightarrow> string \<Rightarrow> int \<Rightarrow> 'd SymbolTable" where
  "defineBlock t n blockId = define_new t (BlockSymbol n blockId)"

definition hasVariable :: "'d SymbolTable \<Rightarrow> string \<Rightarrow> bool" where
  "hasVariable t n =
     (case lookup t n of Some p \<Rightarrow> sym_type (deref t p) = VARIABLE | None \<Rightarrow> False)"

text \<open>
  \<open>updateVariable\<close> returns its \<open>bool\<close> and the table after the call. The cast to
  \<open>VariableSymbol\<close> fails on an object of another class, whatever its \<open>type\<close> field says.
  \<open>varSym->value = newValue\<close> writes the one field of the one object.
\<close>

definition updateVariable ::
    "'d SymbolTable \<Rightarrow> string \<Rightarrow> 'd Value \<Rightarrow> bool \<times> 'd SymbolTable" where
  "updateVariable t n newValue =
     (case lookup t n of
        Some p \<Rightarrow>
          (if sym_type (deref t p) = VARIABLE then
             (case sym_class (deref t p) of
                VariableSymbol_class mut \<Rightarrow>
                  (if mut
                   then (True, t\<lparr>objects := (objects t)[p := (deref t p)\<lparr>sym_value := newValue\<rparr>]\<rparr>)
                   else (False, t))
              | _ \<Rightarrow> (False, t))
           else (False, t))
      | None \<Rightarrow> (False, t))"

text \<open>
  A name is bound to a variable in the chain when some scope of the chain, the current
  one or an enclosing one, has an entry for it whose object has the type \<open>VARIABLE\<close>.
\<close>

fun bound_to_variable :: "'d Symbol list \<Rightarrow> Scope \<Rightarrow> string \<Rightarrow> bool" where
  "bound_to_variable objs (Scope syms par) n =
     ((case syms n of Some p \<Rightarrow> sym_type (objs ! p) = VARIABLE | None \<Rightarrow> False) \<or>
      (case par of Some q \<Rightarrow> bound_to_variable objs q n | None \<Rightarrow> False))"

text \<open>
  Every pointer in the chain is the index of an object. It holds of the table the
  constructor builds, and every operation of the table keeps it.
\<close>

fun Scope_valid :: "nat \<Rightarrow> Scope \<Rightarrow> bool" where
  "Scope_valid k (Scope syms par) =
     ((\<forall>n p. syms n = Some p \<longrightarrow> p < k) \<and>
      (case par of Some q \<Rightarrow> Scope_valid k q | None \<Rightarrow> True))"

definition SymbolTable_valid :: "'d SymbolTable \<Rightarrow> bool" where
  "SymbolTable_valid t = Scope_valid (length (objects t)) (currentScope t)"

section \<open>\<open>perser/ast.h\<close>: the syntax tree\<close>

text \<open>
  The statement classes, one constructor each; the \<open>int\<close> fields hold what \<open>std::stoi\<close>
  returned.
\<close>

datatype Statement =
    LetStmt string string
  | SayStmt string
  | RunOperationStmt int
  | IfStmt string "Statement list" "Statement list"
  | WhileStmt string "Statement list"
  | OpenFileStmt string
  | ReadFileStmt string
  | WriteFileStmt string string string
  | NowStmt "Statement list"
  | DoStmt "Statement list"
  | UntilStmt string "Statement list"
  | AssignmentStmt string string
  | IncrementStmt string bool
  | ExecuteBlockStmt int "string list"

text \<open>
  The nodes a program holds in \<open>sections\<close>: the four kinds of block, and a statement
  (the parser stores an \<open>ExecuteBlockStmt\<close> there).
\<close>

datatype ASTNode =
    StatementNode Statement
  | DataBlock string int "Statement list"
  | OperationBlock string int "Statement list"
  | FunctionBlock string int "Statement list"
  | SystemCallBlock "Statement list"

record ProgramBlock =
  blockId :: int
  sections :: "ASTNode list"

section \<open>\<open>engine/block_engine.h\<close>: the evaluator\<close>

text \<open>
  The state of a run: the \<open>ExecutionContext\<close> (the symbol table and the value stack) and
  the lines written to \<open>std::cout\<close>.
\<close>

record 'd ExecutionContext =
  symbolTable :: "'d SymbolTable"
  stack :: "'d Value list"
  cout :: "string list"

definition ExecutionContext_new :: "'d ExecutionContext" where
  "ExecutionContext_new = \<lparr>symbolTable = SymbolTable_new, stack = [], cout = []\<rparr>"

definition print_line :: "'d ExecutionContext \<Rightarrow> string \<Rightarrow> 'd ExecutionContext" where
  "print_line ctx l = ctx\<lparr>cout := cout ctx @ [l]\<rparr>"

text \<open>\<open>executeLetStatement\<close>: the value is a float when \<open>std::stod\<close> accepts the text, and the
  text itself when it throws.\<close>

definition executeLetStatement ::
    "'d platform \<Rightarrow> 'd ExecutionContext \<Rightarrow> string \<Rightarrow> string \<Rightarrow> 'd ExecutionContext" where
  "executeLetStatement P ctx name val =
     (let v = (case stod P val of Some numVal \<Rightarrow> Value_double numVal | None \<Rightarrow> Value_string val)
      in ctx\<lparr>symbolTable := defineVariable (symbolTable ctx) name v True\<rparr>)"

definition executeSayStatement ::
    "'d platform \<Rightarrow> 'd ExecutionContext \<Rightarrow> string \<Rightarrow> 'd ExecutionContext" where
  "executeSayStatement P ctx message =
     (case lookup (symbolTable ctx) message of
        Some symbol \<Rightarrow> print_line ctx (toString P (sym_value (deref (symbolTable ctx) symbol)))
      | None \<Rightarrow> print_line ctx message)"

definition executeRunOperationStatement :: "'d ExecutionContext \<Rightarrow> int \<Rightarrow> 'd ExecutionContext" where
  "executeRunOperationStatement ctx operationId =
     print_line ctx (''Running operation '' @ to_string_int operationId)"

definition executeOpenFileStatement :: "'d ExecutionContext \<Rightarrow> string \<Rightarrow> 'd ExecutionContext" where
  "executeOpenFileStatement ctx filename = print_line ctx (''Opening file: '' @ filename)"

definition executeReadFileStatement :: "'d ExecutionContext \<Rightarrow> string \<Rightarrow> 'd ExecutionContext" where
  "executeReadFileStatement ctx filename = print_line ctx (''Reading file: '' @ filename)"

definition executeWriteFileStatement ::
    "'d ExecutionContext \<Rightarrow> string \<Rightarrow> string \<Rightarrow> string \<Rightarrow> 'd ExecutionContext" where
  "executeWriteFileStatement ctx content filename location =
     print_line ctx
       (''Writing to file: '' @ filename @ '' content: '' @ content @ '' at location: '' @ location)"

text \<open>\<open>operator<<(bool)\<close> prints \<open>1\<close> or \<open>0\<close>.\<close>

definition executeUntilStatement ::
    "'d platform \<Rightarrow> 'd ExecutionContext \<Rightarrow> string \<Rightarrow> 'd ExecutionContext" where
  "executeUntilStatement P ctx condition =
     (case lookup (symbolTable ctx) condition of
        Some symbol \<Rightarrow>
          print_line ctx
            (''Until condition evaluated: '' @
             (if toBool P (sym_value (deref (symbolTable ctx) symbol)) then ''1'' else ''0''))
      | None \<Rightarrow> print_line ctx (''Until condition: '' @ condition))"

text \<open>The condition of \<open>executeIfStatement\<close>.\<close>

definition conditionResult :: "'d platform \<Rightarrow> 'd ExecutionContext \<Rightarrow> string \<Rightarrow> bool" where
  "conditionResult P ctx condition =
     (case lookup (symbolTable ctx) condition of
        Some symbol \<Rightarrow> toBool P (sym_value (deref (symbolTable ctx) symbol))
      | None \<Rightarrow> condition \<noteq> [])"

text \<open>
  \<open>executeStatement\<close> tests the class of the statement along its chain of
  \<open>dynamic_cast\<close>s; a statement of a class the chain does not name (\<open>AssignmentStmt\<close>,
  \<open>IncrementStmt\<close>, \<open>ExecuteBlockStmt\<close>) falls through it and nothing is done.
  \<open>executeStatements\<close> is the loop \<open>for (auto& s : body) executeStatement(ctx, s.get())\<close>.
\<close>

fun executeStatement :: "'d platform \<Rightarrow> 'd ExecutionContext \<Rightarrow> Statement \<Rightarrow> 'd ExecutionContext"
and executeStatements :: "'d platform \<Rightarrow> 'd ExecutionContext \<Rightarrow> Statement list \<Rightarrow> 'd ExecutionContext"
where
  "executeStatement P ctx (LetStmt name val) = executeLetStatement P ctx name val"
| "executeStatement P ctx (SayStmt message) = executeSayStatement P ctx message"
| "executeStatement P ctx (RunOperationStmt operationId) = executeRunOperationStatement ctx operationId"
| "executeStatement P ctx (IfStmt condition thenBody elseBody) =
     (if conditionResult P ctx condition then executeStatements P ctx thenBody
      else executeStatements P ctx elseBody)"
| "executeStatement P ctx (WhileStmt condition body) = executeStatements P ctx body"
| "executeStatement P ctx (OpenFileStmt filename) = executeOpenFileStatement ctx filename"
| "executeStatement P ctx (ReadFileStmt filename) = executeReadFileStatement ctx filename"
| "executeStatement P ctx (WriteFileStmt content filename location) =
     executeWriteFileStatement ctx content filename location"
| "executeStatement P ctx (NowStmt body) = executeStatements P ctx body"
| "executeStatement P ctx (DoStmt body) = executeStatements P ctx body"
| "executeStatement P ctx (UntilStmt condition body) = executeUntilStatement P ctx condition"
| "executeStatement P ctx (AssignmentStmt variable val) = ctx"
| "executeStatement P ctx (IncrementStmt variable isIncrement) = ctx"
| "executeStatement P ctx (ExecuteBlockStmt execId outputs) = ctx"
| "executeStatements P ctx [] = ctx"
| "executeStatements P ctx (stmt # stmts) = executeStatements P (executeStatement P ctx stmt) stmts"

definition executeBlockDirective ::
    "'d ExecutionContext \<Rightarrow> int \<Rightarrow> string list \<Rightarrow> 'd ExecutionContext" where
  "executeBlockDirective ctx execId outputs =
     foldl (\<lambda>c output. print_line c (''Output: '' @ output))
       (print_line ctx (''Executing block '' @ to_string_int execId)) outputs"

fun executeSection :: "'d platform \<Rightarrow> 'd ExecutionContext \<Rightarrow> ASTNode \<Rightarrow> 'd ExecutionContext" where
  "executeSection P ctx (DataBlock name ident statements) = executeStatements P ctx statements"
| "executeSection P ctx (OperationBlock name ident body) = executeStatements P ctx body"
| "executeSection P ctx (FunctionBlock name ident body) = executeStatements P ctx body"
| "executeSection P ctx (SystemCallBlock body) = executeStatements P ctx body"
| "executeSection P ctx (StatementNode (ExecuteBlockStmt execId outputs)) =
     executeBlockDirective ctx execId outputs"
| "executeSection P ctx (StatementNode stmt) = ctx"

text \<open>\<open>executeProgram\<close> returns \<open>Value()\<close>; the model returns the state the run ends in
  with it.\<close>

definition executeProgram :: "'d platform \<Rightarrow> ProgramBlock \<Rightarrow> 'd Value \<times> 'd ExecutionContext" where
  "executeProgram P program =
     (Value_default, foldl (executeSection P) ExecutionContext_new (sections program))"

text \<open>
  \<open>builtins/builtins_registry.h\<close>, whose text follows the parser in \<open>perser/parser.cpp\<close>:
  the entries \<open>Divide\<close>, \<open>Add\<close>, \<open>Concat\<close> and \<open>Read\<close> of \<open>initializeBuiltins\<close>, on their
  argument vector. \<open>Concat\<close> returns \<open>Value("")\<close> and \<open>Read\<close> returns
  \<open>Value("<file_contents>")\<close>, both built from a string literal.
\<close>

definition builtin_Divide :: "'d platform \<Rightarrow> 'd Value list \<Rightarrow> exn + 'd Value" where
  "builtin_Divide P args =
     (if 2 \<le> length args then Value_divide P (args ! 0) (args ! 1)
      else Inr (Value_double (lit P 0)))"

definition builtin_Add :: "'d platform \<Rightarrow> 'd Value list \<Rightarrow> 'd Value" where
  "builtin_Add P args =
     (if 2 \<le> length args then Value_plus P (args ! 0) (args ! 1) else Value_double (lit P 0))"

definition builtin_Concat :: "'d platform \<Rightarrow> 'd Value list \<Rightarrow> 'd Value" where
  "builtin_Concat P args =
     (if 2 \<le> length args then Value_plus P (args ! 0) (args ! 1) else Value_of_literal [])"

definition builtin_Read :: "'d Value list \<Rightarrow> 'd Value" where
  "builtin_Read args =
     (if args \<noteq> [] then Value_of_literal ''<file_contents>'' else Value_default)"

text \<open>
  Two programs, each the tree that \<open>Parser::parseBlock\<close> returns for the tokens of its
  text. \<open>parseBlock\<close> returns only for a text that ends with the \<open>#EXECUTE_BLOCK\<close>
  directive, which it stores as the last section. The first text has the statements of
  claim C1 in a data block:

  \<^verbatim>\<open>#START_BLOCK(1001);\<close>
  \<^verbatim>\<open>DATA [add_data[12] { Let x = 10; Let y = 5; While => y => y--; };]\<close>
  \<^verbatim>\<open>#EXECUTE_BLOCK(1001) =>;\<close>
  \<^verbatim>\<open>#END_BLOCK;\<close>

  The second declares an operation with the number \<open>23\<close> and runs it from a function
  block:

  \<^verbatim>\<open>#START_BLOCK(1001);\<close>
  \<^verbatim>\<open>OPERATION [Create_operation(myOp)[23] { Say "in operation"; };]\<close>
  \<^verbatim>\<open>FUNCTION [create_function(myFunc)[45] { Run operation[23]; };]\<close>
  \<^verbatim>\<open>#EXECUTE_BLOCK(1001) =>;\<close>
  \<^verbatim>\<open>#END_BLOCK;\<close>
\<close>

definition while_example :: ProgramBlock where
  "while_example =
     \<lparr>blockId = 1001,
      sections =
        [DataBlock ''add_data'' 12
           [LetStmt ''x'' ''10'', LetStmt ''y'' ''5'',
            WhileStmt ''y'' [IncrementStmt ''y'' False]],
         StatementNode (ExecuteBlockStmt 1001 [])]\<rparr>"

definition run_example :: ProgramBlock where
  "run_example =
     \<lparr>blockId = 1001,
      sections =
        [OperationBlock ''myOp'' 23 [SayStmt ''in operation''],
         FunctionBlock ''myFunc'' 45 [RunOperationStmt 23],
         StatementNode (ExecuteBlockStmt 1001 [])]\<rparr>"

section \<open>\<open>lexer/lexer.h\<close>, \<open>lexer/lexer.cpp\<close>: the lexer\<close>

datatype TokenType =
  EndOfFile | Unknown | Identifier | Keyword | Number | String | Symbol | Operator | Comment

record Token =
  tok_type :: TokenType
  tok_lexeme :: string
  tok_line :: int
  tok_column :: int

definition kKeywords :: "string list" where
  "kKeywords =
     [''#START_BLOCK'', ''#END_BLOCK'', ''#EXECUTE_BLOCK'',
      ''DATA'', ''OPERATION'', ''FUNCTION'', ''SYSTEM_CALL'',
      ''Let'', ''NOW'', ''DO'', ''Until'', ''Run'', ''If'', ''Else'', ''While'', ''Say'',
      ''open'', ''Read'', ''Write'', ''in_file'', ''at_Location'', ''DO'',
      ''Create_operation'', ''create_function'']"

definition kOperators :: "string list" where
  "kOperators = [''=>'', ''=='', ''++'', ''--'', ''='', ''+'', ''-'', ''*'', ''/'', ''%'']"

definition kSymbols :: "char list" where
  "kSymbols = ''(){}[];,*@./''"

text \<open>
  The members of \<open>class Lexer\<close>. The positions \<open>line_\<close> and \<open>col_\<close> are C++ \<open>int\<close>s that
  only count up from \<open>1\<close>; they are integers here.
\<close>

record Lexer =
  src :: string
  pos :: nat
  line :: int
  col :: int

definition Lexer_new :: "string \<Rightarrow> Lexer" where
  "Lexer_new source = \<lparr>src = source, pos = 0, line = 1, col = 1\<rparr>"

definition makeToken :: "TokenType \<Rightarrow> string \<Rightarrow> int \<Rightarrow> int \<Rightarrow> Token" where
  "makeToken ty lexeme tline tcol = \<lparr>tok_type = ty, tok_lexeme = lexeme, tok_line = tline, tok_column = tcol\<rparr>"

definition isAtEnd :: "Lexer \<Rightarrow> bool" where
  "isAtEnd L = (length (src L) \<le> pos L)"

definition peek :: "Lexer \<Rightarrow> char" where
  "peek L = (if isAtEnd L then CHR 0x00 else src L ! pos L)"

definition peekNext :: "Lexer \<Rightarrow> char" where
  "peekNext L = (if length (src L) \<le> pos L + 1 then CHR 0x00 else src L ! (pos L + 1))"

text \<open>
  \<open>advance\<close> reads \<open>src_[pos_]\<close> with no check of its own. The model makes the read past
  the last character a failure, \<open>None\<close>, which every caller passes on; so a result
  \<open>Some\<close> of the lexer says that no such read happened.
\<close>

definition advance :: "Lexer \<Rightarrow> (char \<times> Lexer) option" where
  "advance L =
     (if isAtEnd L then None
      else
        let c = src L ! pos L in
        if c = CHR 0x0A then Some (c, L\<lparr>pos := pos L + 1, line := line L + 1, col := 1\<rparr>)
        else Some (c, L\<lparr>pos := pos L + 1, col := col L + 1\<rparr>))"

text \<open>The number of characters not yet consumed: the measure of every loop.\<close>

definition remaining :: "Lexer \<Rightarrow> nat" where
  "remaining L = length (src L) - pos L"

lemma advance_Some:
  "advance L = Some (c, L') \<Longrightarrow>
     src L' = src L \<and> pos L' = Suc (pos L) \<and> pos L < length (src L) \<and> c = src L ! pos L"
  by (auto simp: advance_def isAtEnd_def Let_def split: if_splits)

lemma advance_remaining: "advance L = Some (c, L') \<Longrightarrow> remaining L' < remaining L"
  by (drule advance_Some) (auto simp: remaining_def)

declare Option.bind_cong [fundef_cong]

function skipWhitespace :: "Lexer \<Rightarrow> Lexer option" where
  "skipWhitespace L =
     (if \<not> isAtEnd L \<and> isspace (peek L)
      then do { (c, L') \<leftarrow> advance L; skipWhitespace L' }
      else Some L)"
  by pat_completeness auto
termination
  by (relation "measure remaining") (auto simp: advance_remaining)

declare skipWhitespace.simps [simp del]

function scanComment_loop :: "Lexer \<Rightarrow> string \<Rightarrow> (string \<times> Lexer) option" where
  "scanComment_loop L lexeme =
     (if \<not> isAtEnd L \<and> peek L \<noteq> CHR 0x0A
      then do { (c, L') \<leftarrow> advance L; scanComment_loop L' (lexeme @ [c]) }
      else Some (lexeme, L))"
  by pat_completeness auto
termination
  by (relation "measure (\<lambda>(L, lexeme). remaining L)") (auto simp: advance_remaining)

declare scanComment_loop.simps [simp del]

definition scanComment :: "Lexer \<Rightarrow> int \<Rightarrow> int \<Rightarrow> (Token \<times> Lexer) option" where
  "scanComment L tline tcol =
     do {
       (c1, L1) \<leftarrow> advance L;
       (c2, L2) \<leftarrow> advance L1;
       (lexeme, L3) \<leftarrow> scanComment_loop L2 [];
       Some (makeToken Comment lexeme tline tcol, L3)
     }"

function scanIdentifierOrKeyword_loop :: "Lexer \<Rightarrow> string \<Rightarrow> (string \<times> Lexer) option" where
  "scanIdentifierOrKeyword_loop L lexeme =
     (if \<not> isAtEnd L \<and> (isalnum (peek L) \<or> peek L = CHR ''_'' \<or> peek L = CHR ''#'')
      then do { (c, L') \<leftarrow> advance L; scanIdentifierOrKeyword_loop L' (lexeme @ [c]) }
      else Some (lexeme, L))"
  by pat_completeness auto
termination
  by (relation "measure (\<lambda>(L, lexeme). remaining L)") (auto simp: advance_remaining)

declare scanIdentifierOrKeyword_loop.simps [simp del]

definition scanIdentifierOrKeyword :: "Lexer \<Rightarrow> int \<Rightarrow> int \<Rightarrow> (Token \<times> Lexer) option" where
  "scanIdentifierOrKeyword L tline tcol =
     do {
       (lexeme, L') \<leftarrow> scanIdentifierOrKeyword_loop L [];
       if lexeme \<in> set kKeywords then Some (makeToken Keyword lexeme tline tcol, L')
       else Some (makeToken Identifier lexeme tline tcol, L')
     }"

function scanNumber_loop :: "Lexer \<Rightarrow> string \<Rightarrow> (string \<times> Lexer) option" where
  "scanNumber_loop L lexeme =
     (if \<not> isAtEnd L \<and> isdigit (peek L)
      then do { (c, L') \<leftarrow> advance L; scanNumber_loop L' (lexeme @ [c]) }
      else Some (lexeme, L))"
  by pat_completeness auto
termination
  by (relation "measure (\<lambda>(L, lexeme). remaining L)") (auto simp: advance_remaining)

declare scanNumber_loop.simps [simp del]

definition scanNumber :: "Lexer \<Rightarrow> int \<Rightarrow> int \<Rightarrow> (Token \<times> Lexer) option" where
  "scanNumber L tline tcol =
     do { (lexeme, L') \<leftarrow> scanNumber_loop L []; Some (makeToken Number lexeme tline tcol, L') }"

text \<open>
  The loop of \<open>scanString\<close> returns from inside on the closing quote, leaves on a line
  feed, and ends with the input; the kind of token tells which.
\<close>

function scanString_loop :: "Lexer \<Rightarrow> string \<Rightarrow> (TokenType \<times> string \<times> Lexer) option" where
  "scanString_loop L lexeme =
     (if \<not> isAtEnd L
      then do {
        (c, L') \<leftarrow> advance L;
        if c = CHR 0x22 then Some (String, lexeme, L')
        else if c = CHR 0x0A then Some (Unknown, lexeme, L')
        else scanString_loop L' (lexeme @ [c])
      }
      else Some (Unknown, lexeme, L))"
  by pat_completeness auto
termination
  by (relation "measure (\<lambda>(L, lexeme). remaining L)") (auto simp: advance_remaining)

declare scanString_loop.simps [simp del]

definition scanString :: "Lexer \<Rightarrow> int \<Rightarrow> int \<Rightarrow> (Token \<times> Lexer) option" where
  "scanString L tline tcol =
     do {
       (q, L1) \<leftarrow> advance L;
       (ty, lexeme, L2) \<leftarrow> scanString_loop L1 [];
       Some (makeToken ty lexeme tline tcol, L2)
     }"

text \<open>
  \<open>src_.compare(pos_, op.size(), op) == 0\<close>: whether the characters from \<open>pos_\<close>, at most
  as many as \<open>op\<close> has, are \<open>op\<close>. \<open>std::string::compare\<close> throws \<open>std::out_of_range\<close> when
  \<open>pos_\<close> is beyond the size.
\<close>

definition compare_at :: "string \<Rightarrow> nat \<Rightarrow> string \<Rightarrow> bool option" where
  "compare_at s p opr = (if length s < p then None else Some (take (length opr) (drop p s) = opr))"

fun advance_n :: "nat \<Rightarrow> Lexer \<Rightarrow> Lexer option" where
  "advance_n 0 L = Some L"
| "advance_n (Suc n) L = do { (c, L') \<leftarrow> advance L; advance_n n L' }"

fun matchOperator_from :: "string list \<Rightarrow> Lexer \<Rightarrow> (string option \<times> Lexer) option" where
  "matchOperator_from [] L = Some (None, L)"
| "matchOperator_from (opr # oprs) L =
     do {
       eq \<leftarrow> compare_at (src L) (pos L) opr;
       if eq then do { L' \<leftarrow> advance_n (length opr) L; Some (Some opr, L') }
       else matchOperator_from oprs L
     }"

definition matchOperator :: "Lexer \<Rightarrow> (string option \<times> Lexer) option" where
  "matchOperator L = matchOperator_from kOperators L"

text \<open>
  One turn of the loop of \<open>tokenize\<close> after the white space: the chain of branches that
  scans one token at a position that is not the end.
\<close>

definition scanToken :: "Lexer \<Rightarrow> (Token \<times> Lexer) option" where
  "scanToken L =
     (let startLine = line L; startCol = col L; c = peek L in
      if c = CHR ''/'' \<and> peekNext L = CHR ''/'' then scanComment L startLine startCol
      else if c = CHR 0x22 then scanString L startLine startCol
      else if isdigit c then scanNumber L startLine startCol
      else if isalpha c \<or> c = CHR ''_'' \<or> c = CHR ''#''
        then scanIdentifierOrKeyword L startLine startCol
      else do {
        (opr, L1) \<leftarrow> matchOperator L;
        (case opr of
           Some lexeme \<Rightarrow> Some (makeToken Operator lexeme startLine startCol, L1)
         | None \<Rightarrow>
             if c \<in> set kSymbols
             then do { (ch, L2) \<leftarrow> advance L1; Some (makeToken Symbol [ch] startLine startCol, L2) }
             else do { (ch, L2) \<leftarrow> advance L1; Some (makeToken Unknown [ch] startLine startCol, L2) })
      })"

text \<open>
  Every scanner returns, keeps the source and moves forward; one turn of the loop consumes at
  least one character. The loop of \<open>tokenize\<close> needs this to be a function at all.
\<close>

lemma advance_ok: "\<not> isAtEnd L \<Longrightarrow> \<exists>c L'. advance L = Some (c, L')"
  by (simp add: advance_def Let_def)

lemma skipWhitespace_ok:
  "\<exists>L'. skipWhitespace L = Some L' \<and> src L' = src L \<and> pos L \<le> pos L'"
proof (induction L rule: skipWhitespace.induct)
  case (1 L)
  show ?case
  proof (cases "\<not> isAtEnd L \<and> isspace (peek L)")
    case True
    then obtain c L1 where a: "advance L = Some (c, L1)"
      using advance_ok by blast
    from "1.IH" [OF True a refl] obtain L' where
      "skipWhitespace L1 = Some L'" "src L' = src L1" "pos L1 \<le> pos L'" by blast
    with a True advance_Some [OF a] show ?thesis
      by (subst skipWhitespace.simps) auto
  next
    case False
    then show ?thesis by (subst skipWhitespace.simps) auto
  qed
qed

lemma scanComment_loop_ok:
  "\<exists>r L'. scanComment_loop L lexeme = Some (r, L') \<and> src L' = src L \<and> pos L \<le> pos L'"
proof (induction L lexeme rule: scanComment_loop.induct)
  case (1 L lexeme)
  show ?case
  proof (cases "\<not> isAtEnd L \<and> peek L \<noteq> CHR 0x0A")
    case True
    then obtain c L1 where a: "advance L = Some (c, L1)"
      using advance_ok by blast
    from "1.IH" [OF True a refl] obtain r L' where
      "scanComment_loop L1 (lexeme @ [c]) = Some (r, L')" "src L' = src L1" "pos L1 \<le> pos L'"
      by blast
    with a True advance_Some [OF a] show ?thesis
      by (subst scanComment_loop.simps) auto
  next
    case False
    then show ?thesis by (subst scanComment_loop.simps) auto
  qed
qed

lemma scanIdentifierOrKeyword_loop_ok:
  "\<exists>r L'. scanIdentifierOrKeyword_loop L lexeme = Some (r, L') \<and> src L' = src L \<and> pos L \<le> pos L'"
proof (induction L lexeme rule: scanIdentifierOrKeyword_loop.induct)
  case (1 L lexeme)
  show ?case
  proof (cases "\<not> isAtEnd L \<and> (isalnum (peek L) \<or> peek L = CHR ''_'' \<or> peek L = CHR ''#'')")
    case True
    then obtain c L1 where a: "advance L = Some (c, L1)"
      using advance_ok by blast
    from "1.IH" [OF True a refl] obtain r L' where
      "scanIdentifierOrKeyword_loop L1 (lexeme @ [c]) = Some (r, L')" "src L' = src L1"
      "pos L1 \<le> pos L'"
      by blast
    with a True advance_Some [OF a] show ?thesis
      by (subst scanIdentifierOrKeyword_loop.simps) auto
  next
    case False
    then show ?thesis by (subst scanIdentifierOrKeyword_loop.simps) auto
  qed
qed

lemma scanNumber_loop_ok:
  "\<exists>r L'. scanNumber_loop L lexeme = Some (r, L') \<and> src L' = src L \<and> pos L \<le> pos L'"
proof (induction L lexeme rule: scanNumber_loop.induct)
  case (1 L lexeme)
  show ?case
  proof (cases "\<not> isAtEnd L \<and> isdigit (peek L)")
    case True
    then obtain c L1 where a: "advance L = Some (c, L1)"
      using advance_ok by blast
    from "1.IH" [OF True a refl] obtain r L' where
      "scanNumber_loop L1 (lexeme @ [c]) = Some (r, L')" "src L' = src L1" "pos L1 \<le> pos L'"
      by blast
    with a True advance_Some [OF a] show ?thesis
      by (subst scanNumber_loop.simps) auto
  next
    case False
    then show ?thesis by (subst scanNumber_loop.simps) auto
  qed
qed

lemma scanString_loop_ok:
  "\<exists>ty r L'. scanString_loop L lexeme = Some (ty, r, L') \<and> src L' = src L \<and> pos L \<le> pos L'"
proof (induction L lexeme rule: scanString_loop.induct)
  case (1 L lexeme)
  show ?case
  proof (cases "isAtEnd L")
    case True
    then show ?thesis by (subst scanString_loop.simps) auto
  next
    case False
    then obtain c L1 where a: "advance L = Some (c, L1)"
      using advance_ok by blast
    show ?thesis
    proof (cases "c = CHR 0x22 \<or> c = CHR 0x0A")
      case True
      with a False advance_Some [OF a] show ?thesis
        by (subst scanString_loop.simps) auto
    next
      case stop: False
      with "1.IH" [OF False a refl] obtain ty r L' where
        "scanString_loop L1 (lexeme @ [c]) = Some (ty, r, L')" "src L' = src L1" "pos L1 \<le> pos L'"
        by blast
      with a False stop advance_Some [OF a] show ?thesis
        by (subst scanString_loop.simps) auto
    qed
  qed
qed

lemma advance_n_ok:
  "pos L + n \<le> length (src L) \<Longrightarrow>
     \<exists>L'. advance_n n L = Some L' \<and> src L' = src L \<and> pos L' = pos L + n"
proof (induction n arbitrary: L)
  case 0
  then show ?case by simp
next
  case (Suc n)
  then have "\<not> isAtEnd L" by (simp add: isAtEnd_def)
  then obtain c L1 where a: "advance L = Some (c, L1)"
    using advance_ok by blast
  with Suc.prems advance_Some [OF a] have "pos L1 + n \<le> length (src L1)" by simp
  from Suc.IH [OF this] a advance_Some [OF a] show ?case by auto
qed

lemma matchOperator_from_ok:
  "pos L \<le> length (src L) \<Longrightarrow>
     (\<exists>L'. matchOperator_from oprs L = Some (None, L) \<and> L' = L) \<or>
     (\<exists>opr L'. matchOperator_from oprs L = Some (Some opr, L') \<and> opr \<in> set oprs \<and>
        src L' = src L \<and> pos L' = pos L + length opr \<and>
        take (length opr) (drop (pos L) (src L)) = opr)"
proof (induction oprs)
  case Nil
  then show ?case by simp
next
  case (Cons opr oprs)
  show ?case
  proof (cases "take (length opr) (drop (pos L) (src L)) = opr")
    case True
    then have "length (take (length opr) (drop (pos L) (src L))) = length opr"
      by simp
    then have "length opr \<le> length (src L) - pos L"
      by simp
    with Cons.prems have "pos L + length opr \<le> length (src L)" by simp
    from advance_n_ok [OF this] True Cons.prems show ?thesis
      by (auto simp: compare_at_def)
  next
    case False
    with Cons show ?thesis by (auto simp: compare_at_def)
  qed
qed

lemma kOperators_nonempty: "opr \<in> set kOperators \<Longrightarrow> opr \<noteq> []"
  by (auto simp: kOperators_def)

lemma scanToken_ok:
  assumes "\<not> isAtEnd L"
  shows "\<exists>tok L'. scanToken L = Some (tok, L') \<and> src L' = src L \<and> pos L < pos L'"
proof -
  from assms have inb: "pos L < length (src L)" by (simp add: isAtEnd_def)
  from assms obtain c0 L1 where a1: "advance L = Some (c0, L1)"
    using advance_ok by blast
  note f1 = advance_Some [OF a1]
  consider (comment) "peek L = CHR ''/'' \<and> peekNext L = CHR ''/''"
    | (string) "\<not> (peek L = CHR ''/'' \<and> peekNext L = CHR ''/'')" "peek L = CHR 0x22"
    | (number) "\<not> (peek L = CHR ''/'' \<and> peekNext L = CHR ''/'')" "peek L \<noteq> CHR 0x22"
        "isdigit (peek L)"
    | (ident) "\<not> (peek L = CHR ''/'' \<and> peekNext L = CHR ''/'')" "peek L \<noteq> CHR 0x22"
        "\<not> isdigit (peek L)" "isalpha (peek L) \<or> peek L = CHR ''_'' \<or> peek L = CHR ''#''"
    | (other) "\<not> (peek L = CHR ''/'' \<and> peekNext L = CHR ''/'')" "peek L \<noteq> CHR 0x22"
        "\<not> isdigit (peek L)" "\<not> (isalpha (peek L) \<or> peek L = CHR ''_'' \<or> peek L = CHR ''#'')"
    by blast
  then show ?thesis
  proof cases
    case comment
    then have "pos L + 1 < length (src L)"
      by (auto simp: peekNext_def split: if_splits)
    with f1 have "\<not> isAtEnd L1" by (simp add: isAtEnd_def)
    then obtain c2 L2 where a2: "advance L1 = Some (c2, L2)"
      using advance_ok by blast
    note f2 = advance_Some [OF a2]
    from scanComment_loop_ok [of L2 "[]"] obtain r L3 where
      "scanComment_loop L2 [] = Some (r, L3)" "src L3 = src L2" "pos L2 \<le> pos L3" by blast
    with comment a1 a2 f1 f2 show ?thesis
      by (auto simp: scanToken_def scanComment_def Let_def)
  next
    case string
    from scanString_loop_ok [of L1 "[]"] obtain ty r L2 where
      "scanString_loop L1 [] = Some (ty, r, L2)" "src L2 = src L1" "pos L1 \<le> pos L2" by blast
    with string a1 f1 show ?thesis
      by (auto simp: scanToken_def scanString_def Let_def)
  next
    case number
    have step: "scanNumber_loop L [] = (advance L \<bind> (\<lambda>(c, L'). scanNumber_loop L' ([] @ [c])))"
      using assms number by (subst scanNumber_loop.simps) simp
    from scanNumber_loop_ok [of L1 "[c0]"] obtain r L2 where
      "scanNumber_loop L1 [c0] = Some (r, L2)" "src L2 = src L1" "pos L1 \<le> pos L2" by blast
    with number a1 f1 step show ?thesis
      by (auto simp: scanToken_def scanNumber_def Let_def)
  next
    case ident
    then have "isalnum (peek L) \<or> peek L = CHR ''_'' \<or> peek L = CHR ''#''"
      by (auto simp: isalnum_def)
    then have step: "scanIdentifierOrKeyword_loop L [] =
        (advance L \<bind> (\<lambda>(c, L'). scanIdentifierOrKeyword_loop L' ([] @ [c])))"
      using assms by (subst scanIdentifierOrKeyword_loop.simps) simp
    from scanIdentifierOrKeyword_loop_ok [of L1 "[c0]"] obtain r L2 where
      "scanIdentifierOrKeyword_loop L1 [c0] = Some (r, L2)" "src L2 = src L1" "pos L1 \<le> pos L2"
      by blast
    with ident a1 f1 step show ?thesis
      by (auto simp: scanToken_def scanIdentifierOrKeyword_def Let_def)
  next
    case other
    from inb have "pos L \<le> length (src L)" by simp
    from matchOperator_from_ok [OF this, of kOperators] show ?thesis
    proof (elim disjE exE conjE)
      fix L'
      assume "matchOperator_from kOperators L = Some (None, L)"
      with other a1 f1 show ?thesis
        by (auto simp: scanToken_def matchOperator_def Let_def)
    next
      fix opr L'
      assume m: "matchOperator_from kOperators L = Some (Some opr, L')" "opr \<in> set kOperators"
        "src L' = src L" "pos L' = pos L + length opr"
      with kOperators_nonempty [of opr] have "pos L < pos L'" by simp
      with other m show ?thesis
        by (auto simp: scanToken_def matchOperator_def Let_def)
    qed
  qed
qed

text \<open>
  The loop of \<open>tokenize\<close>, on the tokens pushed so far, and \<open>tokenize\<close>, which appends the
  \<open>EndOfFile\<close> token.
\<close>

function tokenize_loop :: "Lexer \<Rightarrow> Token list \<Rightarrow> (Token list \<times> Lexer) option" where
  "tokenize_loop L tokens =
     (if isAtEnd L then Some (tokens, L)
      else do {
        L1 \<leftarrow> skipWhitespace L;
        if isAtEnd L1 then Some (tokens, L1)
        else do { (tok, L2) \<leftarrow> scanToken L1; tokenize_loop L2 (tokens @ [tok]) }
      })"
  by pat_completeness auto
termination
proof (relation "measure (\<lambda>(L, tokens). remaining L)", goal_cases)
  case 1
  then show ?case by simp
next
  case (2 L tokens L1 a tok L2)
  from skipWhitespace_ok [of L] 2 have "src L1 = src L" "pos L \<le> pos L1" by auto
  moreover from scanToken_ok [of L1] 2 have "src L2 = src L1" "pos L1 < pos L2" by auto
  moreover from 2 have "pos L < length (src L)" by (simp add: isAtEnd_def)
  ultimately show ?case by (simp add: remaining_def)
qed

declare tokenize_loop.simps [simp del]

definition tokenize :: "string \<Rightarrow> Token list option" where
  "tokenize source =
     do {
       (tokens, L) \<leftarrow> tokenize_loop (Lexer_new source) [];
       Some (tokens @ [makeToken EndOfFile [] (line L) (col L)])
     }"




section \<open>Evaluating the reference platform\<close>

lemma bitlen_0: "bitlen 0 = 0"
  by (simp add: bitlen.simps)

lemma bitlen_1: "bitlen (Suc 0) = Suc 0"
  by (subst bitlen.simps) (simp add: bitlen_0)

lemma bitlen_Bit0: "bitlen (numeral (Num.Bit0 k)) = Suc (bitlen (numeral k))"
  by (subst bitlen.simps) simp

lemma bitlen_Bit1: "bitlen (numeral (Num.Bit1 k)) = Suc (bitlen (numeral k))"
  by (subst bitlen.simps) simp

lemmas round_eval = round_double_def floor_log2_def pow2_le_def scaled_round_def pack_def
  round_half_even_def round_scaled_def bitlen_0 bitlen_1 bitlen_Bit0 bitlen_Bit1 Let_def

lemma double_of_rat_fraction:
  assumes "coprime a b" and "0 < b"
  shows "double_of_rat (of_int a / of_int b) = round_double (a < 0) (nat \<bar>a\<bar>) (nat b)"
proof -
  have "quotient_of (of_int a / of_int b) = (a, b)"
    using assms by (metis Fract_of_int_quotient normalize_stable quotient_of_Fract)
  then show ?thesis by (simp add: double_of_rat_def)
qed

lemma binary64_sel:
  "stod binary64 = double_stod" "to_string binary64 = double_to_string"
  "lit binary64 = double_of_rat" "dadd binary64 = double_add" "dsub binary64 = double_sub"
  "dmul binary64 = double_mul" "ddiv binary64 = double_div" "dless binary64 = double_less"
  "dabs binary64 = double_abs"
  by (simp_all add: binary64_def)

text \<open>The comparison of two finite doubles that are not negative compares their magnitudes.\<close>

lemma pow2_shift:
  fixes e k :: int
  assumes "k \<le> e"
  shows "(2::rat) powi e * 2 powi (- k) = 2 ^ nat (e - k)"
proof -
  have "(2::rat) powi e * 2 powi (- k) = 2 powi (e - k)"
    by (simp add: power_int_diff power_int_minus field_simps)
  also from assms have "\<dots> = 2 ^ nat (e - k)"
    by (simp add: power_int_def)
  finally show ?thesis .
qed

lemma double_less_magnitude:
  "double_less (Finite False a ea) (Finite False b eb) =
     (double_magnitude a ea < double_magnitude b eb)"
proof -
  let ?k = "min ea eb"
  have pos: "(0::rat) < 2 powi (- ?k)" by simp
  have ea: "(2::rat) powi ea * 2 powi (- ?k) = 2 ^ nat (ea - ?k)"
    by (rule pow2_shift) simp
  have eb: "(2::rat) powi eb * 2 powi (- ?k) = 2 ^ nat (eb - ?k)"
    by (rule pow2_shift) simp
  have "(double_magnitude a ea < double_magnitude b eb) =
        (double_magnitude a ea * 2 powi (- ?k) < double_magnitude b eb * 2 powi (- ?k))"
    using pos by (simp only: mult_less_cancel_right_pos)
  also have "\<dots> = ((of_nat a :: rat) * 2 ^ nat (ea - ?k) < of_nat b * 2 ^ nat (eb - ?k))"
    by (simp only: double_magnitude_def mult.assoc ea eb)
  also have "\<dots> =
      ((of_int (int a * 2 ^ nat (ea - ?k)) :: rat) < of_int (int b * 2 ^ nat (eb - ?k)))"
    by simp
  also have "\<dots> = (int a * 2 ^ nat (ea - ?k) < int b * 2 ^ nat (eb - ?k))"
    by (simp only: of_int_less_iff)
  finally show ?thesis by (simp add: signed_mant_def)
qed

text \<open>The doubles of the literals that the examples use.\<close>

lemma double_0: "double_of_rat 0 = Finite False 0 (- 1074)"
  by (simp add: double_of_rat_def round_eval)

lemma double_1: "double_of_rat 1 = Finite False 4503599627370496 (- 52)"
  by (simp add: double_of_rat_def round_eval)

lemma double_2: "double_of_rat 2 = Finite False 4503599627370496 (- 51)"
  by (simp add: double_of_rat_def round_eval)

lemma double_3: "double_of_rat 3 = Finite False 6755399441055744 (- 51)"
  by (simp add: double_of_rat_def round_eval)

lemma double_4: "double_of_rat 4 = Finite False 4503599627370496 (- 50)"
  by (simp add: double_of_rat_def round_eval)

lemma double_5: "double_of_rat 5 = Finite False 5629499534213120 (- 50)"
  by (simp add: double_of_rat_def round_eval)

lemma double_6: "double_of_rat 6 = Finite False 6755399441055744 (- 50)"
  by (simp add: double_of_rat_def round_eval)

lemma double_10: "double_of_rat 10 = Finite False 5629499534213120 (- 49)"
  by (simp add: double_of_rat_def round_eval)

lemma double_eps: "double_of_rat (1 / 10000000000) = Finite False 7737125245533627 (- 86)"
  using double_of_rat_fraction [of 1 10000000000] by (simp add: round_eval)

lemma double_milli: "double_of_rat (1 / 1000) = Finite False 4611686018427388 (- 62)"
  using double_of_rat_fraction [of 1 1000] by (simp add: round_eval)

lemma double_to_string_5: "double_to_string (double_of_rat 5) = ''5.000000''"
  by (simp add: double_5 micro_units_def round_half_even_def pad6_def nat_digits.simps
      digit_char_def Let_def)

lemma double_to_string_6: "double_to_string (double_of_rat 6) = ''6.000000''"
  by (simp add: double_6 micro_units_def round_half_even_def pad6_def nat_digits.simps
      digit_char_def Let_def)

lemma double_add_2_3: "double_add (double_of_rat 2) (double_of_rat 3) = double_of_rat 5"
  by (simp add: double_2 double_3 double_5 aligned_sum_def signed_mant_def round_eval)

lemma double_add_1_5: "double_add (double_of_rat 1) (double_of_rat 5) = double_of_rat 6"
  by (simp add: double_1 double_5 double_6 aligned_sum_def signed_mant_def round_eval)

lemma double_stod_abc: "double_stod ''abc'' = None"
  by (simp add: double_stod_def isspace_def tolower_def hex_prefix_def decimal_value_def
      scan_mantissa_def isdigit_def)

lemma double_stod_5: "double_stod ''5'' = Some (double_of_rat 5)"
  by (simp add: double_stod_def isspace_def tolower_def hex_prefix_def decimal_value_def
      scan_mantissa_def isdigit_def checked_round_def tiny_def scaled_frac_def xdigit_val_def
      double_5
      round_eval)

lemma double_stod_10: "double_stod ''10'' = Some (double_of_rat 10)"
  by (simp add: double_stod_def isspace_def tolower_def hex_prefix_def decimal_value_def
      scan_mantissa_def isdigit_def checked_round_def tiny_def scaled_frac_def xdigit_val_def
      double_10
      round_eval)

section \<open>Properties of the values\<close>

text \<open>
  Claim C10. \<open>toFloat\<close> has a result on every tag, with no failure: a handle gives its
  \<open>id\<close> cast to \<open>double\<close>, a bool gives \<open>1.0\<close> or \<open>0.0\<close>, a float gives itself, and a string
  gives what \<open>std::stod\<close> returns, or \<open>0.0\<close> when \<open>std::stod\<close> throws.
\<close>

theorem toFloat_total:
  "toFloat P (Value_handle h) = lit P (of_int (sint (handle_id h))) \<and>
   toFloat P (Value_bool b) = (if b then lit P 1 else lit P 0) \<and>
   toFloat P (Value_double f) = f \<and>
   (stod P s = None \<longrightarrow> toFloat P (Value_string s) = lit P 0) \<and>
   (stod P s = Some d \<longrightarrow> toFloat P (Value_string s) = d)"
  by simp

theorem toFloat_total_witness:
  "stod binary64 ''abc'' = None \<and>
   toFloat binary64 (Value_string ''abc'') = lit binary64 0 \<and>
   stod binary64 ''5'' = Some (lit binary64 5) \<and>
   toFloat binary64 (Value_string ''5'') = lit binary64 5 \<and>
   toFloat binary64 (Value_handle \<lparr>handle_type = ''file'', handle_ptr = 0, handle_id = 1\<rparr>) =
     lit binary64 1"
proof -
  have a: "stod binary64 ''abc'' = None"
    by (simp add: binary64_sel double_stod_abc)
  have b: "stod binary64 ''5'' = Some (lit binary64 5)"
    by (simp add: binary64_sel double_stod_5)
  show ?thesis
    using a b
      toFloat_total [of binary64 "\<lparr>handle_type = ''file'', handle_ptr = 0, handle_id = 1\<rparr>"
        True "lit binary64 0" "''abc''" "lit binary64 0"]
      toFloat_total [of binary64 "\<lparr>handle_type = ''file'', handle_ptr = 0, handle_id = 1\<rparr>"
        True "lit binary64 0" "''5''" "lit binary64 5"]
    by simp
qed

lemma double_eps_near:
  "\<bar>double_magnitude 7737125245533627 (- 86) - 1 / 10 ^ 10\<bar> < 1 / 10 ^ 26"
  by (simp add: double_magnitude_def power_int_minus field_simps)

text \<open>
  Claim C6. A float is true exactly when \<open>1e-10 < std::abs(x)\<close>, the comparison of the
  platform. On binary64 the literal \<open>1e-10\<close> is the double \<open>7737125245533627 * 2\<^sup>-\<^sup>8\<^sup>6\<close>, and
  a finite float is true exactly when its magnitude is greater than that; an infinity is
  true and a NaN, of either sign, is false. There \<open>Value(0.0000000001)\<close> is false and \<open>Value(0.001)\<close> is
  true.
\<close>

theorem toBool_float_epsilon:
  "toBool P (Value_double x) = dless P (lit P (1 / 10 ^ 10)) (dabs P x) \<and>
   toBool binary64 (Value_double (Finite s m e)) =
     (double_magnitude 7737125245533627 (- 86) < double_magnitude m e) \<and>
   toBool binary64 (Value_double (Infinity s)) \<and>
   \<not> toBool binary64 (Value_double (NaN n)) \<and>
   \<not> toBool binary64 (Value_double (lit binary64 (1 / 10000000000))) \<and>
   toBool binary64 (Value_double (lit binary64 (1 / 1000)))"
proof (intro conjI)
  show "toBool P (Value_double x) = dless P (lit P (1 / 10 ^ 10)) (dabs P x)"
    by simp
  show "toBool binary64 (Value_double (Finite s m e)) =
     (double_magnitude 7737125245533627 (- 86) < double_magnitude m e)"
    by (simp add: binary64_sel double_eps double_less_magnitude del: double_less.simps)
  show "toBool binary64 (Value_double (Infinity s))"
    by (simp add: binary64_sel double_eps)
  show "\<not> toBool binary64 (Value_double (NaN n))"
    by (simp add: binary64_sel double_eps)
  show "\<not> toBool binary64 (Value_double (lit binary64 (1 / 10000000000)))"
    by (simp add: binary64_sel double_eps signed_mant_def)
  show "toBool binary64 (Value_double (lit binary64 (1 / 1000)))"
    by (simp add: binary64_sel double_eps double_milli signed_mant_def)
qed

text \<open>
  Claim C4. \<open>a + b\<close> concatenates the string forms when \<open>a\<close> or \<open>b\<close> has the tag \<open>STRING\<close>,
  and otherwise is the float sum of the float forms, as the claim says. Its first example
  fails all the same: the operand \<open>Value("abc")\<close> is built from a string literal, which the
  constructors of the class turn into the bool \<open>true\<close>, so that on binary64
  \<open>Value("abc") + Value(5.0)\<close> is the float \<open>1.0 + 5.0 = 6.0\<close>, printed \<open>6.000000\<close>, where the
  claim has the string \<open>abc5.000000\<close>. The sum is that string when the operand is built
  from a \<open>std::string\<close>. \<open>Value(2.0) + Value(3.0)\<close> is the float \<open>5.0\<close>.
\<close>

theorem Value_plus_of_literal_is_float:
  "Value_plus P a b =
     (if getType a = STRING \<or> getType b = STRING
      then Value_string (toString P a @ toString P b)
      else Value_double (dadd P (toFloat P a) (toFloat P b))) \<and>
   Value_plus binary64 (Value_of_literal ''abc'') (Value_double (lit binary64 5)) =
     Value_double (lit binary64 6) \<and>
   toString binary64
     (Value_plus binary64 (Value_of_literal ''abc'') (Value_double (lit binary64 5))) =
     ''6.000000'' \<and>
   Value_plus binary64 (Value_string ''abc'') (Value_double (lit binary64 5)) =
     Value_string ''abc5.000000'' \<and>
   Value_plus binary64 (Value_double (lit binary64 2)) (Value_double (lit binary64 3)) =
     Value_double (lit binary64 5)"
proof (intro conjI)
  show "Value_plus P a b =
     (if getType a = STRING \<or> getType b = STRING
      then Value_string (toString P a @ toString P b)
      else Value_double (dadd P (toFloat P a) (toFloat P b)))"
    by (simp add: Value_plus_def)
  show "Value_plus binary64 (Value_of_literal ''abc'') (Value_double (lit binary64 5)) =
     Value_double (lit binary64 6)"
    by (simp add: Value_plus_def Value_of_literal_def binary64_sel double_add_1_5)
  show "toString binary64
     (Value_plus binary64 (Value_of_literal ''abc'') (Value_double (lit binary64 5))) =
     ''6.000000''"
    by (simp add: Value_plus_def Value_of_literal_def binary64_sel double_add_1_5
        double_to_string_6)
  show "Value_plus binary64 (Value_string ''abc'') (Value_double (lit binary64 5)) =
     Value_string ''abc5.000000''"
    by (simp add: Value_plus_def binary64_sel double_to_string_5)
  show "Value_plus binary64 (Value_double (lit binary64 2)) (Value_double (lit binary64 3)) =
     Value_double (lit binary64 5)"
    by (simp add: Value_plus_def binary64_sel double_add_2_3)
qed

text \<open>
  Claim C5. \<open>a / b\<close> throws \<open>std::runtime_error("Division by zero")\<close> when
  \<open>std::abs(b.toFloat()) < 1e-10\<close>, and is the float \<open>a.toFloat() / b.toFloat()\<close> otherwise.
  On binary64 a finite float divisor makes it throw exactly when its magnitude is less
  than the double \<open>1e-10\<close>. The builtin \<open>Divide\<close> is \<open>/\<close> on its first two arguments: it
  throws on \<open>Value(4.0)\<close> and \<open>Value(0.0)\<close>, where the division of the platform would give
  infinity, and returns \<open>2.0\<close> on \<open>Value(4.0)\<close> and \<open>Value(2.0)\<close>.
\<close>

theorem Value_divide_by_zero:
  "Value_divide P a b =
     (if dless P (dabs P (toFloat P b)) (lit P (1 / 10 ^ 10))
      then Inl (runtime_error ''Division by zero'')
      else Inr (Value_double (ddiv P (toFloat P a) (toFloat P b)))) \<and>
   (Value_divide binary64 a' (Value_double (Finite s m e)) =
      Inl (runtime_error ''Division by zero'')) =
     (double_magnitude m e < double_magnitude 7737125245533627 (- 86)) \<and>
   builtin_Divide binary64 [Value_double (lit binary64 4), Value_double (lit binary64 0)] =
     Inl (runtime_error ''Division by zero'') \<and>
   ddiv binary64 (lit binary64 4) (lit binary64 0) = Infinity False \<and>
   builtin_Divide P (x # y # others) = Value_divide P x y \<and>
   builtin_Divide binary64 [Value_double (lit binary64 4), Value_double (lit binary64 2)] =
     Inr (Value_double (lit binary64 2))"
proof (intro conjI)
  show "builtin_Divide P (x # y # others) = Value_divide P x y"
    by (simp add: builtin_Divide_def)
  show "builtin_Divide binary64 [Value_double (lit binary64 4), Value_double (lit binary64 2)] =
     Inr (Value_double (lit binary64 2))"
    by (simp add: builtin_Divide_def Value_divide_def binary64_sel double_eps double_2 double_4
        signed_mant_def round_eval)
  show "Value_divide P a b =
     (if dless P (dabs P (toFloat P b)) (lit P (1 / 10 ^ 10))
      then Inl (runtime_error ''Division by zero'')
      else Inr (Value_double (ddiv P (toFloat P a) (toFloat P b))))"
    by (simp add: Value_divide_def Let_def)
  show "(Value_divide binary64 a' (Value_double (Finite s m e)) =
      Inl (runtime_error ''Division by zero'')) =
     (double_magnitude m e < double_magnitude 7737125245533627 (- 86))"
    by (simp add: Value_divide_def binary64_sel double_eps double_less_magnitude
        del: double_less.simps)
  show "builtin_Divide binary64 [Value_double (lit binary64 4), Value_double (lit binary64 0)] =
     Inl (runtime_error ''Division by zero'')"
    by (simp add: builtin_Divide_def Value_divide_def binary64_sel double_eps double_0 double_4
        signed_mant_def)
  show "ddiv binary64 (lit binary64 4) (lit binary64 0) = Infinity False"
    by (simp add: binary64_sel double_0 double_4)
qed

section \<open>Properties of the symbol table\<close>

lemma Scope_lookup_variable_bound:
  "Scope_lookup sc n = Some p \<Longrightarrow> sym_type (objs ! p) = VARIABLE \<Longrightarrow> bound_to_variable objs sc n"
  by (induction sc n rule: Scope_lookup.induct) (auto split: option.splits)

text \<open>The table that the constructor builds: five objects, one entry for each.\<close>

lemma SymbolTable_new_eq:
  "(SymbolTable_new :: 'd SymbolTable) =
     \<lparr>objects =
        [BuiltInSymbol ''Say'' ''print'', BuiltInSymbol ''open'' ''file_open'',
         BuiltInSymbol ''Read'' ''file_read'', BuiltInSymbol ''Write'' ''file_write'',
         BuiltInSymbol ''DO'' ''execute''],
      currentScope =
        Scope [''Say'' \<mapsto> 0, ''open'' \<mapsto> 1, ''Read'' \<mapsto> 2, ''Write'' \<mapsto> 3, ''DO'' \<mapsto> 4] None\<rparr>"
  by (simp add: SymbolTable_new_def initializeBuiltIns_def define_new_def make_shared_def
      SymbolTable_define_def deref_def BuiltInSymbol_def eval_nat_numeral)

lemma Scope_valid_mono: "Scope_valid k sc \<Longrightarrow> k \<le> k' \<Longrightarrow> Scope_valid k' sc"
proof (induction k sc rule: Scope_valid.induct)
  case (1 k syms par)
  from "1.prems" have "\<forall>n p. syms n = Some p \<longrightarrow> p < k'" by fastforce
  moreover from 1 have "case par of Some q \<Rightarrow> Scope_valid k' q | None \<Rightarrow> True"
    by (cases par) simp_all
  ultimately show ?case by simp
qed

lemma Scope_valid_define: "Scope_valid k sc \<Longrightarrow> p < k \<Longrightarrow> Scope_valid k (Scope_define sc n p)"
  by (cases sc) simp

lemma Scope_valid_lookup: "Scope_valid k sc \<Longrightarrow> Scope_lookup sc n = Some p \<Longrightarrow> p < k"
proof (induction sc n rule: Scope_lookup.induct)
  case (1 syms par n)
  show ?case
  proof (cases "syms n")
    case (Some p')
    with "1.prems" show ?thesis by simp
  next
    case None
    with "1.prems" obtain q where q: "par = Some q" "Scope_lookup q n = Some p"
      by (cases par) simp_all
    with "1.prems" have "Scope_valid k q" by simp
    from "1.IH" [OF None q(1) this q(2)] show ?thesis .
  qed
qed

lemma SymbolTable_valid_define_new: "SymbolTable_valid t \<Longrightarrow> SymbolTable_valid (define_new t s)"
proof -
  assume "SymbolTable_valid t"
  then have "Scope_valid (Suc (length (objects t))) (currentScope t)"
    unfolding SymbolTable_valid_def by (rule Scope_valid_mono) simp
  then have "Scope_valid (Suc (length (objects t)))
      (Scope_define (currentScope t) (sym_name s) (length (objects t)))"
    by (rule Scope_valid_define) simp
  then show ?thesis
    by (simp add: SymbolTable_valid_def define_new_def make_shared_def SymbolTable_define_def
        deref_def)
qed

lemma SymbolTable_valid_new: "SymbolTable_valid (SymbolTable_new :: 'd SymbolTable)"
proof -
  have "SymbolTable_valid (\<lparr>objects = [], currentScope = Scope Map.empty None\<rparr> :: 'd SymbolTable)"
    by (simp add: SymbolTable_valid_def)
  then show ?thesis
    unfolding SymbolTable_new_def initializeBuiltIns_def
    by (intro SymbolTable_valid_define_new)
qed

lemma SymbolTable_valid_enterScope: "SymbolTable_valid t \<Longrightarrow> SymbolTable_valid (enterScope t)"
  by (simp add: SymbolTable_valid_def enterScope_def)

lemma SymbolTable_valid_exitScope: "SymbolTable_valid t \<Longrightarrow> SymbolTable_valid (exitScope t)"
proof (cases "currentScope t")
  case (Scope syms par)
  assume "SymbolTable_valid t"
  with Scope show ?thesis
    by (cases par) (simp_all add: SymbolTable_valid_def exitScope_def)
qed

lemma SymbolTable_valid_updateVariable:
  "SymbolTable_valid t \<Longrightarrow> SymbolTable_valid (snd (updateVariable t n v))"
  by (simp add: SymbolTable_valid_def updateVariable_def split: option.splits SymbolClass.splits)

lemma SymbolTable_valid_lookup:
  "SymbolTable_valid t \<Longrightarrow> lookup t n = Some p \<Longrightarrow> p < length (objects t)"
  by (simp add: SymbolTable_valid_def lookup_def Scope_valid_lookup)

text \<open>
  Claim C7. When the name is bound to a variable in no scope of the chain,
  \<open>updateVariable\<close> returns \<open>false\<close> and the table it leaves is the table it was given:
  no scope of the chain and no object has changed, and no binding has been added.
\<close>

theorem updateVariable_unbound:
  assumes "\<not> bound_to_variable (objects t) (currentScope t) n"
  shows "updateVariable t n newValue = (False, t)"
proof (cases "lookup t n")
  case None
  then show ?thesis by (simp add: updateVariable_def)
next
  case (Some p)
  with assms have "sym_type (deref t p) \<noteq> VARIABLE"
    using Scope_lookup_variable_bound [of "currentScope t" n p "objects t"]
    by (auto simp: lookup_def deref_def)
  with Some show ?thesis by (simp add: updateVariable_def)
qed

theorem updateVariable_unbound_witness:
  "\<not> bound_to_variable
       (objects (enterScope (defineFunction (SymbolTable_new :: double SymbolTable) ''x'' [])))
       (currentScope (enterScope (defineFunction (SymbolTable_new :: double SymbolTable) ''x'' [])))
       ''x'' \<and>
   updateVariable (enterScope (defineFunction (SymbolTable_new :: double SymbolTable) ''x'' []))
       ''x'' (Value_double (lit binary64 2)) =
     (False, enterScope (defineFunction SymbolTable_new ''x'' []))"
proof -
  have h: "\<not> bound_to_variable
       (objects (enterScope (defineFunction (SymbolTable_new :: double SymbolTable) ''x'' [])))
       (currentScope (enterScope (defineFunction (SymbolTable_new :: double SymbolTable) ''x'' [])))
       ''x''"
    by (simp add: enterScope_def defineFunction_def SymbolTable_new_eq define_new_def
        make_shared_def SymbolTable_define_def deref_def FunctionSymbol_def)
  show ?thesis
    using h updateVariable_unbound [OF h, of "Value_double (lit binary64 2)"] by simp
qed

text \<open>
  What \<open>updateVariable\<close> does when it succeeds, for comparison: on a mutable variable it
  returns \<open>true\<close>, and the object the name resolves to then has the new value. Every entry
  that points to the object, under whatever name and in whatever scope, resolves to the
  object with the new value.
\<close>

lemma updateVariable_mutable:
  assumes "SymbolTable_valid t" and "lookup t n = Some p"
    and "sym_type (deref t p) = VARIABLE" and "sym_class (deref t p) = VariableSymbol_class True"
  shows "fst (updateVariable t n newValue) = True \<and>
    lookup (snd (updateVariable t n newValue)) n = Some p \<and>
    deref (snd (updateVariable t n newValue)) p = (deref t p)\<lparr>sym_value := newValue\<rparr>"
  using assms SymbolTable_valid_lookup [OF assms(1,2)]
  by (simp add: updateVariable_def lookup_def deref_def)

lemma updateVariable_shared_object:
  assumes "SymbolTable_valid t" and "lookup t n = Some p" and "lookup t n' = Some p"
    and "sym_type (deref t p) = VARIABLE" and "sym_class (deref t p) = VariableSymbol_class True"
  shows "map_option (\<lambda>q. sym_value (deref (snd (updateVariable t n newValue)) q))
           (lookup (snd (updateVariable t n newValue)) n') = Some newValue"
  using assms SymbolTable_valid_lookup [OF assms(1,2)]
  by (simp add: updateVariable_def lookup_def deref_def)

text \<open>
  Claim C3, as amended. When the name resolves to a variable whose mutability flag is
  false, \<open>updateVariable\<close> returns \<open>false\<close>, which a successful update never returns, and
  leaves the table as it was: the name still resolves to the same object, and the object
  has the same value. The result is the plain \<open>bool\<close> that the call also returns for a name
  that is not bound; no error of a kind of its own is raised.
\<close>

theorem updateVariable_immutable:
  assumes "lookup t n = Some p" and "sym_type (deref t p) = VARIABLE"
    and "sym_class (deref t p) = VariableSymbol_class False"
  shows "updateVariable t n newValue = (False, t) \<and>
    lookup (snd (updateVariable t n newValue)) n = Some p \<and>
    deref (snd (updateVariable t n newValue)) p = deref t p"
  using assms by (simp add: updateVariable_def)

theorem updateVariable_immutable_witness:
  "lookup (defineVariable (SymbolTable_new :: double SymbolTable) ''x''
       (Value_double (lit binary64 1)) False) ''x'' = Some 5 \<and>
   deref (defineVariable (SymbolTable_new :: double SymbolTable) ''x''
       (Value_double (lit binary64 1)) False) 5 =
     VariableSymbol ''x'' (Value_double (lit binary64 1)) False \<and>
   updateVariable (defineVariable (SymbolTable_new :: double SymbolTable) ''x''
       (Value_double (lit binary64 1)) False) ''x'' (Value_double (lit binary64 2)) =
     (False, defineVariable SymbolTable_new ''x'' (Value_double (lit binary64 1)) False)"
proof -
  have h: "lookup (defineVariable (SymbolTable_new :: double SymbolTable) ''x''
       (Value_double (lit binary64 1)) False) ''x'' = Some 5"
    by (simp add: lookup_def defineVariable_def define_new_def make_shared_def
        SymbolTable_define_def deref_def VariableSymbol_def SymbolTable_new_eq)
  have d: "deref (defineVariable (SymbolTable_new :: double SymbolTable) ''x''
       (Value_double (lit binary64 1)) False) 5 =
     VariableSymbol ''x'' (Value_double (lit binary64 1)) False"
    by (simp add: defineVariable_def define_new_def make_shared_def
        SymbolTable_define_def deref_def SymbolTable_new_eq)
  show ?thesis
    using h d
      updateVariable_immutable [OF h, of "Value_double (lit binary64 2)"]
    by (simp add: VariableSymbol_def)
qed

text \<open>
  Claim C3 as the specification states it asks for a report that tells the attempt on an
  immutable variable apart as a \<open>MutationError\<close>. The two calls below, one on an immutable
  variable and one on a name that no scope binds, have the same outcome: the same result
  and the same table.
\<close>

theorem updateVariable_immutable_counterexample:
  "updateVariable (defineVariable (SymbolTable_new :: double SymbolTable) ''x''
       (Value_double (lit binary64 1)) False) ''x'' (Value_double (lit binary64 2)) =
   updateVariable (defineVariable (SymbolTable_new :: double SymbolTable) ''x''
       (Value_double (lit binary64 1)) False) ''absent'' (Value_double (lit binary64 2))"
  by (simp add: updateVariable_def lookup_def defineVariable_def define_new_def make_shared_def
      SymbolTable_define_def deref_def VariableSymbol_def SymbolTable_new_eq)

section \<open>Properties of the evaluator\<close>

lemma to_string_int_1001: "to_string_int 1001 = ''1001''"
  by (simp add: to_string_int_def nat_digits.simps digit_char_def)

text \<open>
  Claim C1. The claim asks for a loop: the condition evaluated before each turn, the
  body run while it is true, a \<open>LoopLimitExceeded\<close> error past a cap. \<open>executeWhileStatement\<close>
  never reads the condition and runs the body once, whatever the state; and a body
  \<open>y--\<close> is an \<open>IncrementStmt\<close>, which \<open>executeStatement\<close> does not execute. So the program
  of the claim ends with \<open>y\<close> bound to \<open>5.0\<close>, as \<open>Let y = 5\<close> left it, not to \<open>0\<close>; its only
  output is the line of the \<open>#EXECUTE_BLOCK\<close> directive.
\<close>

theorem executeWhileStatement_runs_body_once:
  "executeStatement P ctx (WhileStmt condition body) = executeStatements P ctx body \<and>
   lookup (symbolTable (snd (executeProgram binary64 while_example))) ''y'' = Some 6 \<and>
   deref (symbolTable (snd (executeProgram binary64 while_example))) 6 =
     VariableSymbol ''y'' (Value_double (lit binary64 5)) True \<and>
   cout (snd (executeProgram binary64 while_example)) = [''Executing block 1001'']"
  by (simp add: while_example_def executeProgram_def ExecutionContext_new_def
      executeLetStatement_def binary64_sel double_stod_5 double_stod_10 lookup_def
      defineVariable_def define_new_def make_shared_def SymbolTable_define_def deref_def
      VariableSymbol_def SymbolTable_new_eq executeBlockDirective_def print_line_def
      to_string_int_1001)

text \<open>
  Claim C2. The claim asks \<open>Run operation[id]\<close> to find the operation and execute its
  body. \<open>executeRunOperationStatement\<close> writes one line to the output and changes nothing
  else; the body of the operation runs once, where the block is declared, and not again
  where it is run.
\<close>

theorem executeRunOperationStatement_only_logs:
  "executeStatement P ctx (RunOperationStmt operationId) =
     ctx\<lparr>cout := cout ctx @ [''Running operation '' @ to_string_int operationId]\<rparr> \<and>
   cout (snd (executeProgram binary64 run_example)) =
     [''in operation'', ''Running operation 23'', ''Executing block 1001'']"
proof (intro conjI)
  show "executeStatement P ctx (RunOperationStmt operationId) =
     ctx\<lparr>cout := cout ctx @ [''Running operation '' @ to_string_int operationId]\<rparr>"
    by (simp add: executeRunOperationStatement_def print_line_def)
  have "to_string_int 23 = ''23''"
    by (simp add: to_string_int_def nat_digits.simps digit_char_def)
  then show "cout (snd (executeProgram binary64 run_example)) =
     [''in operation'', ''Running operation 23'', ''Executing block 1001'']"
    by (simp add: run_example_def executeProgram_def ExecutionContext_new_def
        executeSayStatement_def executeRunOperationStatement_def print_line_def lookup_def
        SymbolTable_new_eq executeBlockDirective_def to_string_int_1001)
qed

section \<open>Properties of the lexer\<close>

lemma matchOperator_from_none:
  "pos L \<le> length (src L) \<Longrightarrow>
   \<forall>opr\<in>set oprs. take (length opr) (drop (pos L) (src L)) \<noteq> opr \<Longrightarrow>
   matchOperator_from oprs L = Some (None, L)"
  by (induction oprs) (auto simp: compare_at_def)

lemma operator_starts:
  assumes "pos L < length (src L)" and "opr \<in> set kOperators"
    and "take (length opr) (drop (pos L) (src L)) = opr"
  shows "hd opr = src L ! pos L"
proof -
  from assms(1) have "drop (pos L) (src L) = src L ! pos L # drop (Suc (pos L)) (src L)"
    by (simp add: Cons_nth_drop_Suc)
  with assms(2,3) show ?thesis
    by (cases opr) (auto simp: kOperators_def)
qed

lemma matchOperator_none:
  assumes "pos L < length (src L)" and "src L ! pos L \<notin> set (map hd kOperators)"
  shows "matchOperator L = Some (None, L)"
proof -
  have "\<forall>opr\<in>set kOperators. take (length opr) (drop (pos L) (src L)) \<noteq> opr"
    using operator_starts [OF assms(1)] assms(2) by force
  with assms(1) show ?thesis
    by (simp add: matchOperator_def matchOperator_from_none)
qed



text \<open>
  The ten characters of \<open>kSymbols\<close> that start no operator reach the symbol branch and
  become \<open>Symbol\<close> tokens.
\<close>

lemma scanToken_symbol:
  assumes "c \<in> set ''(){}[];,@.''" and "pos L < length (src L)" and "src L ! pos L = c"
  shows "scanToken L =
    Some (makeToken Symbol [c] (line L) (col L), L\<lparr>pos := pos L + 1, col := col L + 1\<rparr>)"
proof -
  from assms have pk: "peek L = c" by (simp add: peek_def isAtEnd_def)
  from assms(1) have cls: "c \<noteq> CHR ''/''" "c \<noteq> CHR 0x22" "\<not> isdigit c" "\<not> isalpha c"
    "c \<noteq> CHR ''_''" "c \<noteq> CHR ''#''" "c \<in> set kSymbols" "c \<noteq> CHR 0x0A"
    by (auto simp: isdigit_def isalpha_def kSymbols_def)
  from assms have m: "matchOperator L = Some (None, L)"
    by (intro matchOperator_none) (auto simp: kOperators_def)
  from assms cls have a: "advance L = Some (c, L\<lparr>pos := pos L + 1, col := col L + 1\<rparr>)"
    by (simp add: advance_def isAtEnd_def)
  from pk cls m a show ?thesis
    by (simp add: scanToken_def Let_def)
qed




















text \<open>
  Claim C9. The claim asks for a \<open>Symbol\<close> token for each of the twelve characters of
  \<open>kSymbols\<close>. The operator branch comes before the symbol branch in \<open>tokenize\<close>, and \<open>*\<close>
  and \<open>/\<close> are operators too: the lexer emits both as \<open>Operator\<close> tokens, and their entries
  in \<open>kSymbols\<close> are never reached.
\<close>

theorem tokenize_star_slash_operator:
  "tokenize ''*'' = Some [makeToken Operator ''*'' 1 1, makeToken EndOfFile [] 1 2] \<and>
   tokenize ''/'' = Some [makeToken Operator ''/'' 1 1, makeToken EndOfFile [] 1 2] \<and>
   tokenize ''*show'' =
     Some [makeToken Operator ''*'' 1 1, makeToken Identifier ''show'' 1 2,
           makeToken EndOfFile [] 1 6]"
proof (intro conjI)
  show "tokenize ''*'' = Some [makeToken Operator ''*'' 1 1, makeToken EndOfFile [] 1 2]"
    by code_simp
  show "tokenize ''/'' = Some [makeToken Operator ''/'' 1 1, makeToken EndOfFile [] 1 2]"
    by code_simp
  show "tokenize ''*show'' =
     Some [makeToken Operator ''*'' 1 1, makeToken Identifier ''show'' 1 2,
           makeToken EndOfFile [] 1 6]"
    by code_simp
qed

end
